theory Spec2Isabelle
  imports Complex_Main "HOL-Library.AList"
begin

section \<open>Python values\<close>

text \<open>
  A Python \<open>str\<close> is a sequence of Unicode code points, so text is a list of naturals.
  Dictionary keys and XML tag names of the parser are ASCII and written as HOL strings;
  \<open>ascii\<close> turns such a literal into text.
\<close>

type_synonym ustr = "nat list"
type_synonym path = string

definition ascii :: "string \<Rightarrow> ustr" where
  "ascii s = map of_char s"

text \<open>The literals U+672A U+77E5 (the placeholder "unknown") and the placeholder plot
  sentence of \<open>FixedNFOParser.__init__\<close> and \<open>parse_nfo\<close>.\<close>

definition unknown :: ustr where
  "unknown = [26410, 30693]"

definition no_plot :: ustr where
  "no_plot = [26242, 26080, 35813, 37096, 20998, 20449, 24687]"

text \<open>A Python float: a finite value, an infinity or a NaN. YAML integers of the
  configuration are read as finite values: only \<open>> 0\<close> is ever asked of them.\<close>

datatype pynum = Finite rat | PosInf | NegInf | NaN

datatype pyval = VNone | VStr ustr | VFloat pynum | VList "ustr list"

datatype exn = ParseError | OSError | TypeError | AttributeError | PlainException

text \<open>A dict keeps its keys in insertion order; assigning to a present key keeps the
  key's place, assigning to a new key appends it. \<open>AList.update\<close> does exactly that.\<close>

type_synonym pydict = "(string \<times> pyval) list"

definition dict_get :: "pydict \<Rightarrow> string \<Rightarrow> pyval \<Rightarrow> pyval" where
  "dict_get d k dflt = (case map_of d k of Some v \<Rightarrow> v | None \<Rightarrow> dflt)"

definition dict_set :: "string \<Rightarrow> pyval \<Rightarrow> pydict \<Rightarrow> pydict" where
  "dict_set k v d = AList.update k v d"


section \<open>Character classes of the standard library\<close>

text \<open>\<open>str.isspace\<close>, which is also what \<open>\s\<close> matches in a \<open>str\<close> pattern.\<close>

definition is_space :: "nat \<Rightarrow> bool" where
  "is_space c = (c \<in> {9, 10, 11, 12, 13, 28, 29, 30, 31, 32, 133, 160, 5760,
      8192, 8193, 8194, 8195, 8196, 8197, 8198, 8199, 8200, 8201, 8202,
      8232, 8233, 8239, 8287, 12288})"

definition strip :: "ustr \<Rightarrow> ustr" where
  "strip s = rev (dropWhile is_space (rev (dropWhile is_space s)))"

text \<open>\<open>re.sub(r'\s+', ' ', text)\<close>: every maximal run of whitespace becomes one space.
  The flag says that the previous character was whitespace.\<close>

fun sub_ws :: "bool \<Rightarrow> ustr \<Rightarrow> ustr" where
  "sub_ws prev [] = []"
| "sub_ws prev (c # cs) =
     (if is_space c then (if prev then sub_ws True cs else 32 # sub_ws True cs)
      else c # sub_ws False cs)"

text \<open>What the parser takes from \<open>html\<close>, \<open>unicodedata\<close>, \<open>float\<close>, the two XML
  parsers and the file system. None of it is code of the repository, so the model takes
  it as given: every theorem holds whatever these functions are.\<close>

datatype element = Element (tag: string) (elem_text: "ustr option") (children: "element list")

datatype dnode = DText ustr | DElem string "dnode list"

record env =
  et_parse :: "path \<Rightarrow> exn + element"
  open_read :: "path \<Rightarrow> exn + ustr"
  tmp_create_ok :: bool
  tmp_write_ok :: "ustr \<Rightarrow> bool"
  et_parse_tmp :: "ustr \<Rightarrow> exn + element"
  minidom_parse :: "path \<Rightarrow> exn + dnode"
  html_unescape :: "ustr \<Rightarrow> ustr"
  category :: "nat \<Rightarrow> string"
  py_float :: "ustr \<Rightarrow> pynum option"

text \<open>\<open>unicodedata.category(char)[0] != 'C'\<close> keeps a character.\<close>

definition category_C :: "env \<Rightarrow> nat \<Rightarrow> bool" where
  "category_C E c = (take 1 (category E c) = ''C'')"

section \<open>\<open>_clean_text\<close>\<close>

text \<open>Entities decoded, characters of a category \<open>C\<close> dropped, whitespace runs collapsed,
  both ends stripped. None of these steps raises on a \<open>str\<close>, so the \<open>except\<close> branch of
  the source is never taken.\<close>

definition clean_text :: "env \<Rightarrow> ustr \<Rightarrow> ustr" where
  "clean_text E t =
     (if t = [] then []
      else strip (sub_ws False (filter (\<lambda>c. \<not> category_C E c) (html_unescape E t))))"

section \<open>\<open>_has_meaningful_data\<close>\<close>

definition py_strip :: "pyval \<Rightarrow> exn + ustr" where
  "py_strip v = (case v of VStr s \<Rightarrow> Inr (strip s) | _ \<Rightarrow> Inl AttributeError)"

definition num_gt0 :: "pynum \<Rightarrow> bool" where
  "num_gt0 n = (case n of Finite r \<Rightarrow> 0 < r | PosInf \<Rightarrow> True | NegInf \<Rightarrow> False | NaN \<Rightarrow> False)"

definition py_gt0 :: "pyval \<Rightarrow> exn + bool" where
  "py_gt0 v = (case v of VFloat n \<Rightarrow> Inr (num_gt0 n) | _ \<Rightarrow> Inl TypeError)"

definition py_len :: "pyval \<Rightarrow> exn + nat" where
  "py_len v = (case v of VStr s \<Rightarrow> Inr (length s) | VList l \<Rightarrow> Inr (length l)
                | _ \<Rightarrow> Inl TypeError)"

text \<open>\<open>any([...])\<close> builds the whole list first: the eight entries are evaluated in
  order and the first one that raises ends the call.\<close>

definition has_meaningful_data :: "pydict \<Rightarrow> pydict \<Rightarrow> exn + bool" where
  "has_meaningful_data defaults d =
    (case py_strip (dict_get d ''title'' (VStr [])) of Inl e \<Rightarrow> Inl e | Inr title \<Rightarrow>
    (case py_strip (dict_get d ''studio'' (VStr [])) of Inl e \<Rightarrow> Inl e | Inr studio \<Rightarrow>
    (case py_strip (dict_get d ''director'' (VStr [])) of Inl e \<Rightarrow> Inl e | Inr director \<Rightarrow>
    (case py_strip (dict_get d ''plot'' (VStr [])) of Inl e \<Rightarrow> Inl e | Inr plot \<Rightarrow>
    (case py_gt0 (dict_get d ''rating'' (VFloat (Finite 0))) of Inl e \<Rightarrow> Inl e | Inr rating_pos \<Rightarrow>
    (case py_len (dict_get d ''actors'' (VList [])) of Inl e \<Rightarrow> Inl e | Inr n_actors \<Rightarrow>
    (case py_len (dict_get d ''genre'' (VList [])) of Inl e \<Rightarrow> Inl e | Inr n_genre \<Rightarrow>
    (case py_strip (dict_get d ''release_date'' (VStr [])) of Inl e \<Rightarrow> Inl e | Inr release_date \<Rightarrow>
       Inr (list_ex (\<lambda>b. b)
         [title \<noteq> [],
          studio \<noteq> unknown,
          director \<noteq> unknown,
          VStr plot \<noteq> dict_get defaults ''plot'' (VStr []),
          rating_pos,
          0 < n_actors,
          0 < n_genre,
          release_date \<noteq> []])))))))))"

section \<open>\<open>__init__\<close> and the record \<open>parse_nfo\<close> starts from\<close>

text \<open>The literal dict of \<open>__init__\<close>, used when the configuration has no
  \<open>nfo_parsing.defaults\<close>.\<close>

definition builtin_defaults :: pydict where
  "builtin_defaults =
     [(''rating'', VFloat (Finite 0)), (''studio'', VStr unknown),
      (''director'', VStr unknown), (''plot'', VStr no_plot)]"

text \<open>What \<open>config.get\<close> returns is whatever the configuration file holds under the key:
  a dict, or some other value (a YAML null, text, a number, a list), which has no
  \<open>get\<close> method.\<close>

datatype pyobj = Dict pydict | NoDict pyval

definition init_defaults :: "pyobj option \<Rightarrow> pyobj" where
  "init_defaults cfg = (case cfg of Some v \<Rightarrow> v | None \<Rightarrow> Dict builtin_defaults)"

definition init_data :: "pydict \<Rightarrow> pydict" where
  "init_data defaults =
     [(''title'', VStr []),
      (''actors'', VList []),
      (''release_date'', VStr []),
      (''rating'', dict_get defaults ''rating'' (VFloat (Finite 0))),
      (''plot'', dict_get defaults ''plot'' (VStr no_plot)),
      (''genre'', VList []),
      (''studio'', dict_get defaults ''studio'' (VStr unknown)),
      (''director'', dict_get defaults ''director'' (VStr unknown)),
      (''maker'', dict_get defaults ''maker'' (VStr unknown)),
      (''publisher'', dict_get defaults ''publisher'' (VStr unknown)),
      (''series'', VStr [])]"

section \<open>Walking the element tree: \<open>_extract_data_safe\<close>\<close>

text \<open>\<open>root.find(tag)\<close> is the first child of \<open>root\<close> with that tag, \<open>root.findall(tag)\<close>
  all such children in document order; neither looks below the children. \<open>elem.text\<close>
  is the text before the first child, \<open>None\<close> when there is none.\<close>

definition find_child :: "string \<Rightarrow> element \<Rightarrow> element option" where
  "find_child t rt = List.find (\<lambda>c. tag c = t) (children rt)"

definition findall :: "string \<Rightarrow> element \<Rightarrow> element list" where
  "findall t rt = filter (\<lambda>c. tag c = t) (children rt)"

text \<open>\<open>elem is not None and elem.text\<close>, giving the text when it holds.\<close>

definition truthy_text :: "element option \<Rightarrow> ustr option" where
  "truthy_text eo =
     (case eo of None \<Rightarrow> None
      | Some e \<Rightarrow> (case elem_text e of None \<Rightarrow> None
                   | Some t \<Rightarrow> if t = [] then None else Some t))"

text \<open>The dict \<open>fields\<close> of the source maps every field name to the tag of the same
  name, so its items are a list of names.\<close>

definition field_tags :: "string list" where
  "field_tags = [''title'', ''originaltitle'', ''rating'', ''studio'', ''director'',
             ''maker'', ''publisher'', ''plot'', ''series'', ''runtime'']"

text \<open>One round of the loop over the fields. A \<open>ValueError\<close> of \<open>float\<close> is
  \<open>py_float\<close> giving \<open>None\<close>.\<close>

definition extract_field_safe :: "env \<Rightarrow> element \<Rightarrow> pydict \<Rightarrow> string \<Rightarrow> pydict" where
  "extract_field_safe E rt d f =
     (case truthy_text (find_child f rt) of
        None \<Rightarrow> d
      | Some t \<Rightarrow>
          (let v = clean_text E t in
           if v = [] then d
           else if f = ''rating''
             then (case py_float E v of Some x \<Rightarrow> dict_set f (VFloat x) d | None \<Rightarrow> d)
             else dict_set f (VStr v) d))"

text \<open>The list loops: the list starts empty and every element with a non-empty text
  whose cleaned text is non-empty appends to it.\<close>

fun genre_loop :: "env \<Rightarrow> element list \<Rightarrow> ustr list \<Rightarrow> ustr list" where
  "genre_loop E [] acc = acc"
| "genre_loop E (g # gs) acc =
     genre_loop E gs
       (case truthy_text (Some g) of
          None \<Rightarrow> acc
        | Some t \<Rightarrow> (let genre = clean_text E t in if genre = [] then acc else acc @ [genre]))"

fun actor_loop :: "env \<Rightarrow> element list \<Rightarrow> ustr list \<Rightarrow> ustr list" where
  "actor_loop E [] acc = acc"
| "actor_loop E (a # as) acc =
     actor_loop E as
       (case truthy_text (find_child ''name'' a) of
          None \<Rightarrow> acc
        | Some t \<Rightarrow> (let actor = clean_text E t in if actor = [] then acc else acc @ [actor]))"

text \<open>The date loop stops at the first of the three tags that is present with a
  non-empty text; what it stores is not tested for emptiness.\<close>

fun date_loop :: "env \<Rightarrow> element \<Rightarrow> string list \<Rightarrow> pydict \<Rightarrow> pydict" where
  "date_loop E rt [] d = d"
| "date_loop E rt (f # fs) d =
     (case truthy_text (find_child f rt) of
        None \<Rightarrow> date_loop E rt fs d
      | Some t \<Rightarrow> dict_set ''release_date'' (VStr (clean_text E t)) d)"

text \<open>Nothing in the body raises (\<open>_clean_text\<close> is total and the \<open>ValueError\<close> is
  caught inside), so the outer \<open>except\<close> branch is never taken. The function mutates
  the dict it is given and returns that same dict.\<close>

definition extract_data_safe :: "env \<Rightarrow> element \<Rightarrow> pydict \<Rightarrow> pydict" where
  "extract_data_safe E rt d =
     (let d1 = foldl (extract_field_safe E rt) d field_tags;
          d2 = dict_set ''genre'' (VList (genre_loop E (findall ''genre'' rt) [])) d1;
          d3 = dict_set ''actors'' (VList (actor_loop E (findall ''actor'' rt) [])) d2
      in date_loop E rt [''releasedate'', ''premiered'', ''release''] d3)"

section \<open>The regular expressions\<close>

text \<open>A backtracking matcher in continuation style, the way \<open>re\<close> searches: every
  combinator takes the rest of the pattern \<open>k\<close> and the text, tries its alternatives in
  the order of \<open>re\<close> and gives the result of the first one on which \<open>k\<close> succeeds.\<close>

text \<open>\<open>re.IGNORECASE\<close> for a lower-case ASCII letter or a punctuation mark \<open>p\<close> of
  the pattern: the letter itself, its capital, and the three extra characters that
  \<open>re\<close> folds onto \<open>i\<close>, \<open>s\<close> and \<open>k\<close> (U+0130, U+0131, U+017F, U+212A).\<close>

definition ieq :: "nat \<Rightarrow> nat \<Rightarrow> bool" where
  "ieq p c = (c = p \<or> (97 \<le> p \<and> p \<le> 122 \<and> c + 32 = p)
              \<or> (p = 105 \<and> (c = 304 \<or> c = 305)) \<or> (p = 115 \<and> c = 383)
              \<or> (p = 107 \<and> c = 8490))"

fun lit :: "(nat \<Rightarrow> nat \<Rightarrow> bool) \<Rightarrow> ustr \<Rightarrow> (ustr \<Rightarrow> 'a option) \<Rightarrow> ustr \<Rightarrow> 'a option" where
  "lit eq [] k s = k s"
| "lit eq (p # ps) k [] = None"
| "lit eq (p # ps) k (c # cs) = (if eq p c then lit eq ps k cs else None)"

text \<open>Greedy \<open>X*\<close>: as many as possible first, then fewer.\<close>

fun star :: "(nat \<Rightarrow> bool) \<Rightarrow> (ustr \<Rightarrow> 'a option) \<Rightarrow> ustr \<Rightarrow> 'a option" where
  "star P k [] = k []"
| "star P k (c # cs) =
     (if P c then (case star P k cs of Some r \<Rightarrow> Some r | None \<Rightarrow> k (c # cs))
      else k (c # cs))"

fun plus :: "(nat \<Rightarrow> bool) \<Rightarrow> (ustr \<Rightarrow> 'a option) \<Rightarrow> ustr \<Rightarrow> 'a option" where
  "plus P k [] = None"
| "plus P k (c # cs) = (if P c then star P k cs else None)"

definition alt :: "(ustr \<Rightarrow> 'a option) \<Rightarrow> (ustr \<Rightarrow> 'a option) \<Rightarrow> ustr \<Rightarrow> 'a option" where
  "alt k1 k2 s = (case k1 s of Some r \<Rightarrow> Some r | None \<Rightarrow> k2 s)"

text \<open>The lazy group \<open>(.*?)\<close>: as few characters as possible first. It gives the group
  with the result of \<open>k\<close>. Without \<open>re.DOTALL\<close> the dot does not match a newline.\<close>

fun lazy_dot :: "bool \<Rightarrow> (ustr \<Rightarrow> 'a option) \<Rightarrow> ustr \<Rightarrow> (ustr \<times> 'a) option" where
  "lazy_dot dotall k [] = map_option (Pair []) (k [])"
| "lazy_dot dotall k (c # cs) =
     (case k (c # cs) of
        Some r \<Rightarrow> Some ([], r)
      | None \<Rightarrow>
          if c = 10 \<and> \<not> dotall then None
          else map_option (\<lambda>(g, r). (c # g, r)) (lazy_dot dotall k cs))"

text \<open>\<open><tag[^>]*>(.*?)</tag>\<close> tried at the start of the text: the group and the text
  after the match.\<close>

definition tag_re :: "(nat \<Rightarrow> nat \<Rightarrow> bool) \<Rightarrow> bool \<Rightarrow> string \<Rightarrow> ustr \<Rightarrow> (ustr \<times> ustr) option" where
  "tag_re eq dotall t =
     lit eq (ascii (''<'' @ t)) (star (\<lambda>c. c \<noteq> 62) (lit eq (ascii ''>'')
       (lazy_dot dotall (lit eq (ascii (''</'' @ t @ ''>'')) Some))))"

text \<open>\<open><actor[^>]*>.*?<name[^>]*>(.*?)</name>.*?</actor>\<close> with \<open>re.DOTALL\<close> and no
  \<open>re.IGNORECASE\<close>.\<close>

definition actor_re :: "ustr \<Rightarrow> (ustr \<times> ustr) option" where
  "actor_re s =
     (case lit (=) (ascii ''<actor'') (star (\<lambda>c. c \<noteq> 62) (lit (=) (ascii ''>'')
             (lazy_dot True (lit (=) (ascii ''<name'') (star (\<lambda>c. c \<noteq> 62) (lit (=) (ascii ''>'')
               (lazy_dot True (lit (=) (ascii ''</name>'')
                 (lazy_dot True (lit (=) (ascii ''</actor>'') Some)))))))))) s of
        None \<Rightarrow> None
      | Some (before, name, after, rest) \<Rightarrow> Some (name, rest))"

text \<open>\<open>re.search\<close>: the match at the leftmost position that has one.\<close>

fun re_search :: "(ustr \<Rightarrow> 'a option) \<Rightarrow> ustr \<Rightarrow> 'a option" where
  "re_search m [] = m []"
| "re_search m (c # cs) = (case m (c # cs) of Some r \<Rightarrow> Some r | None \<Rightarrow> re_search m cs)"

text \<open>\<open>re.findall\<close> for a pattern with one group that matches no empty text: the groups
  of the successive matches, each search resuming where the last match ended. \<open>skip\<close>
  counts the characters of the current match still to pass.\<close>

fun re_findall :: "(ustr \<Rightarrow> (ustr \<times> ustr) option) \<Rightarrow> nat \<Rightarrow> ustr \<Rightarrow> ustr list" where
  "re_findall m skip [] = []"
| "re_findall m skip (c # cs) =
     (if 0 < skip then re_findall m (skip - 1) cs
      else (case m (c # cs) of
              Some (g, rest) \<Rightarrow> g # re_findall m (length cs - length rest) cs
            | None \<Rightarrow> re_findall m 0 cs))"

text \<open>\<open>_extract_field\<close>: \<open>re.search\<close> with \<open>re.IGNORECASE | re.DOTALL\<close>.\<close>

definition extract_field :: "env \<Rightarrow> string \<Rightarrow> ustr \<Rightarrow> ustr" where
  "extract_field E t content =
     (case re_search (tag_re ieq True t) content of
        Some (g, rest) \<Rightarrow> clean_text E g
      | None \<Rightarrow> [])"

section \<open>\<open>_fix_xml_issues\<close>\<close>

definition invalid_char :: "nat \<Rightarrow> bool" where
  "invalid_char c = (c \<le> 8 \<or> c = 11 \<or> c = 12 \<or> (14 \<le> c \<and> c \<le> 31))"

definition hex_digit :: "nat \<Rightarrow> bool" where
  "hex_digit c = ((48 \<le> c \<and> c \<le> 57) \<or> (65 \<le> c \<and> c \<le> 70) \<or> (97 \<le> c \<and> c \<le> 102))"

text \<open>\<open>\d\<close> in a \<open>str\<close> pattern is a character of category \<open>Nd\<close>.\<close>

definition dec_digit :: "env \<Rightarrow> nat \<Rightarrow> bool" where
  "dec_digit E c = (category E c = ''Nd'')"

text \<open>The lookahead \<open>(?:amp|lt|gt|quot|apos|#\d+|#x[0-9a-fA-F]+);\<close>.\<close>

definition entity_ahead :: "env \<Rightarrow> ustr \<Rightarrow> bool" where
  "entity_ahead E s =
     (let semi = lit (=) (ascii '';'') (\<lambda>r. Some ()) in
      alt (lit (=) (ascii ''amp'') semi)
     (alt (lit (=) (ascii ''lt'') semi)
     (alt (lit (=) (ascii ''gt'') semi)
     (alt (lit (=) (ascii ''quot'') semi)
     (alt (lit (=) (ascii ''apos'') semi)
     (alt (lit (=) (ascii ''#'') (plus (dec_digit E) semi))
          (lit (=) (ascii ''#x'') (plus hex_digit semi))))))) s = Some ())"

fun escape_amp :: "env \<Rightarrow> ustr \<Rightarrow> ustr" where
  "escape_amp E [] = []"
| "escape_amp E (c # cs) =
     (if c = 38 \<and> entity_ahead E cs = False then ascii ''&amp;'' @ escape_amp E cs
      else c # escape_amp E cs)"

definition fix_xml_issues :: "env \<Rightarrow> ustr \<Rightarrow> ustr" where
  "fix_xml_issues E content = escape_amp E (filter (\<lambda>c. invalid_char c = False) content)"

section \<open>The four strategies\<close>

text \<open>What a call changes besides the dict: the scratch files that exist (by name) and
  the log. A strategy is handed the dict that \<open>parse_nfo\<close> created, writes into that
  very dict and, when it returns, returns it; so the model threads one dict, and
  \<open>Returned\<close> stands for "returned the dict it was given". When a strategy raises, the
  writes it has made stay in the dict.\<close>

datatype event = Start | Attempt nat | RecoveryOk | Accepted nat | Failed nat exn | AllFailed

record world =
  scratch :: "nat list"
  log :: "event list"

datatype outcome = Returned | Raised exn

type_synonym strategy = "env \<Rightarrow> path \<Rightarrow> pydict \<Rightarrow> world \<Rightarrow> outcome \<times> pydict \<times> world"

definition parse_standard_xml :: strategy where
  "parse_standard_xml E p d w =
     (case et_parse E p of
        Inl e \<Rightarrow> (Raised e, d, w)
      | Inr rt \<Rightarrow> (Returned, extract_data_safe E rt d, w))"

text \<open>\<open>NamedTemporaryFile(delete=False)\<close> creates a file under a name no existing file
  has. Creating it and writing to it can fail (\<open>OSError\<close>); \<open>os.unlink\<close> of the file
  just created removes it. The \<open>try ... finally\<close> starts after the \<open>with\<close> block that
  writes the file.\<close>

definition fresh :: "nat list \<Rightarrow> nat" where
  "fresh ns = Suc (fold max ns 0)"

definition unlink :: "nat \<Rightarrow> world \<Rightarrow> world" where
  "unlink n w = w\<lparr>scratch := removeAll n (scratch w)\<rparr>"

definition parse_with_recovery :: strategy where
  "parse_with_recovery E p d w =
     (case open_read E p of
        Inl e \<Rightarrow> (Raised e, d, w)
      | Inr content0 \<Rightarrow>
          (let content = fix_xml_issues E content0 in
           if tmp_create_ok E = False then (Raised OSError, d, w)
           else
             (let temp_file_path = fresh (scratch w);
                  w1 = w\<lparr>scratch := temp_file_path # scratch w\<rparr>
              in if tmp_write_ok E content = False then (Raised OSError, d, w1)
                 else
                   (case et_parse_tmp E content of
                      Inl e \<Rightarrow> (Raised e, d, unlink temp_file_path w1)
                    | Inr rt \<Rightarrow>
                        (Returned, extract_data_safe E rt d,
                         unlink temp_file_path (w1\<lparr>log := log w1 @ [RecoveryOk]\<rparr>))))))"

definition parse_line_by_line :: strategy where
  "parse_line_by_line E p d w =
     (case open_read E p of
        Inl e \<Rightarrow> (Raised e, d, w)
      | Inr content \<Rightarrow>
          (let d1 = dict_set ''title'' (VStr (extract_field E ''title'' content)) d;
               d2 = dict_set ''studio'' (VStr (extract_field E ''studio'' content)) d1;
               d3 = dict_set ''director'' (VStr (extract_field E ''director'' content)) d2;
               d4 = dict_set ''plot'' (VStr (extract_field E ''plot'' content)) d3;
               d5 = dict_set ''release_date'' (VStr (extract_field E ''releasedate'' content)) d4;
               d6 = dict_set ''series'' (VStr (extract_field E ''series'' content)) d5;
               d7 = dict_set ''runtime'' (VStr (extract_field E ''runtime'' content)) d6;
               rating_text = extract_field E ''rating'' content;
               d8 = (if rating_text = [] then d7
                     else (case py_float E rating_text of
                             Some x \<Rightarrow> dict_set ''rating'' (VFloat x) d7
                           | None \<Rightarrow> d7));
               genre_matches = re_findall (tag_re ieq False ''genre'') 0 content;
               d9 = dict_set ''genre''
                      (VList (map (clean_text E) (filter (\<lambda>g. strip g \<noteq> []) genre_matches))) d8;
               actor_matches = re_findall actor_re 0 content;
               d10 = dict_set ''actors''
                      (VList (map (clean_text E) (filter (\<lambda>a. strip a \<noteq> []) actor_matches))) d9
           in (Returned, d10, w)))"

text \<open>\<open>doc.getElementsByTagName(t)\<close>: the elements named \<open>t\<close>, the document element
  included, in document order. \<open>elem.firstChild.nodeValue\<close> is the text of a text node
  and \<open>None\<close> for an element. The loop takes the first element that has a child.\<close>

fun elements_by_tag_name :: "string \<Rightarrow> dnode \<Rightarrow> dnode list" where
  "elements_by_tag_name t (DText v) = []"
| "elements_by_tag_name t (DElem n cs) =
     (if n = t then [DElem n cs] else []) @ concat (map (elements_by_tag_name t) cs)"

fun first_child_value :: "dnode list \<Rightarrow> pyval option" where
  "first_child_value [] = None"
| "first_child_value (DText v # es) = first_child_value es"
| "first_child_value (DElem n [] # es) = first_child_value es"
| "first_child_value (DElem n (DText v # cs) # es) = Some (VStr v)"
| "first_child_value (DElem n (DElem m ms # cs) # es) = Some VNone"

definition minidom_field :: "dnode \<Rightarrow> string \<Rightarrow> pydict \<Rightarrow> pydict" where
  "minidom_field doc t d =
     (case first_child_value (elements_by_tag_name t doc) of
        None \<Rightarrow> d
      | Some v \<Rightarrow> dict_set t v d)"

text \<open>Every failure of the minidom strategy is raised again as a plain \<open>Exception\<close>.\<close>

definition parse_with_minidom :: strategy where
  "parse_with_minidom E p d w =
     (case minidom_parse E p of
        Inl e \<Rightarrow> (Raised PlainException, d, w)
      | Inr doc \<Rightarrow>
          (Returned,
           minidom_field doc ''series'' (minidom_field doc ''studio'' (minidom_field doc ''title'' d)),
           w))"

section \<open>\<open>parse_nfo\<close>\<close>

text \<open>One round of the loop: the \<open>try\<close> body and its \<open>except Exception\<close>. \<open>Some r\<close> is
  \<open>return result\<close>, \<open>None\<close> goes on to the next strategy. \<open>result and ...\<close> skips the
  heuristic for an empty dict.\<close>

definition attempt ::
  "env \<Rightarrow> pydict \<Rightarrow> path \<Rightarrow> nat \<Rightarrow> strategy \<Rightarrow> pydict \<Rightarrow> world \<Rightarrow> pydict option \<times> pydict \<times> world" where
  "attempt E defaults p i parser d w =
     (case parser E p d (w\<lparr>log := log w @ [Attempt i]\<rparr>) of
        (Raised e, d1, w1) \<Rightarrow> (None, d1, w1\<lparr>log := log w1 @ [Failed i e]\<rparr>)
      | (Returned, d1, w1) \<Rightarrow>
          if d1 = [] then (None, d1, w1)
          else
            (case has_meaningful_data defaults d1 of
               Inl e \<Rightarrow> (None, d1, w1\<lparr>log := log w1 @ [Failed i e]\<rparr>)
             | Inr ok \<Rightarrow>
                 if ok then (Some d1, d1, w1\<lparr>log := log w1 @ [Accepted i]\<rparr>)
                 else (None, d1, w1)))"

fun run_parsers ::
  "env \<Rightarrow> pydict \<Rightarrow> path \<Rightarrow> (nat \<times> strategy) list \<Rightarrow> pydict \<Rightarrow> world \<Rightarrow> pydict \<times> world" where
  "run_parsers E defaults p [] d w = (d, w\<lparr>log := log w @ [AllFailed]\<rparr>)"
| "run_parsers E defaults p ((i, parser) # ps) d w =
     (case attempt E defaults p i parser d w of
        (Some r, d1, w1) \<Rightarrow> (r, w1)
      | (None, d1, w1) \<Rightarrow> run_parsers E defaults p ps d1 w1)"

definition parsers :: "(nat \<times> strategy) list" where
  "parsers = [(1, parse_standard_xml), (2, parse_with_recovery),
              (3, parse_line_by_line), (4, parse_with_minidom)]"

text \<open>Like every method of the model, \<open>parse_nfo\<close> gives \<open>Inl\<close> of an exception or
  \<open>Inr\<close> of what it returns, with the world it leaves. The initial record is built
  before the loop, outside its \<open>try\<close>: the six calls of \<open>self.defaults.get\<close> raise an
  \<open>AttributeError\<close> when \<open>self.defaults\<close> is not a dict, and \<open>parse_nfo\<close> raises it to its
  caller.\<close>

definition parse_nfo :: "env \<Rightarrow> pyobj \<Rightarrow> path \<Rightarrow> world \<Rightarrow> (exn + pydict) \<times> world" where
  "parse_nfo E defaults p w =
     (case defaults of
        NoDict v \<Rightarrow> (Inl AttributeError, w\<lparr>log := log w @ [Start]\<rparr>)
      | Dict defs \<Rightarrow>
          (case run_parsers E defs p parsers (init_data defs) (w\<lparr>log := log w @ [Start]\<rparr>) of
             (r, w1) \<Rightarrow> (Inr r, w1)))"

text \<open>The strategies a run attempted and the one it accepted, read off the log.\<close>

fun attempted :: "event list \<Rightarrow> nat list" where
  "attempted [] = []"
| "attempted (Attempt i # es) = i # attempted es"
| "attempted (e # es) = attempted es"

fun accepted :: "event list \<Rightarrow> nat list" where
  "accepted [] = []"
| "accepted (Accepted i # es) = i # accepted es"
| "accepted (e # es) = accepted es"

section \<open>Example files\<close>

text \<open>The library functions on the characters of the examples below. The examples use
  ASCII, the tab and the ideographs of the two placeholders, and no character reference
  (an \<open>&\<close> only before a space): there \<open>html.unescape\<close> changes nothing, the only
  characters of a category \<open>C\<close> are the controls and the only decimal digits are \<open>0\<close> to
  \<open>9\<close>. \<open>plain_float\<close> is \<open>float\<close> on the numerals \<open>digits\<close>, \<open>digits.digits\<close>, \<open>digits.\<close>
  and \<open>.digits\<close> (exact when the value is a binary fraction, as in the examples); a text
  with a letter in it is no number.\<close>

definition ex_category :: "nat \<Rightarrow> string" where
  "ex_category c =
     (if c < 32 \<or> (127 \<le> c \<and> c < 160) then ''Cc''
      else if 48 \<le> c \<and> c \<le> 57 then ''Nd'' else ''Lo'')"

fun digits_val :: "nat \<Rightarrow> ustr \<Rightarrow> nat option" where
  "digits_val acc [] = Some acc"
| "digits_val acc (c # cs) =
     (if 48 \<le> c \<and> c \<le> 57 then digits_val (10 * acc + (c - 48)) cs else None)"

definition plain_float :: "ustr \<Rightarrow> pynum option" where
  "plain_float s =
     (let ip = takeWhile (\<lambda>c. c \<noteq> 46) s; fp = drop 1 (dropWhile (\<lambda>c. c \<noteq> 46) s) in
      if ip @ fp = [] then None
      else (case (digits_val 0 ip, digits_val 0 fp) of
              (Some a, Some b) \<Rightarrow> Some (Finite (of_nat a + of_nat b / 10 ^ length fp))
            | _ \<Rightarrow> None))"

text \<open>A file that holds \<open>content\<close>, which both XML parsers read as \<open>rt\<close> and \<open>doc\<close>
  (or reject), on a disk that works.\<close>

definition file_env :: "ustr \<Rightarrow> exn + element \<Rightarrow> exn + dnode \<Rightarrow> env" where
  "file_env content rt doc =
     \<lparr>et_parse = (\<lambda>p. rt), open_read = (\<lambda>p. Inr content), tmp_create_ok = True,
      tmp_write_ok = (\<lambda>t. True), et_parse_tmp = (\<lambda>t. rt), minidom_parse = (\<lambda>p. doc),
      html_unescape = (\<lambda>t. t), category = ex_category, py_float = plain_float\<rparr>"

text \<open>No file at the path.\<close>

definition missing_env :: env where
  "missing_env =
     \<lparr>et_parse = (\<lambda>p. Inl OSError), open_read = (\<lambda>p. Inl OSError), tmp_create_ok = True,
      tmp_write_ok = (\<lambda>t. True), et_parse_tmp = (\<lambda>t. Inl ParseError),
      minidom_parse = (\<lambda>p. Inl OSError),
      html_unescape = (\<lambda>t. t), category = ex_category, py_float = plain_float\<rparr>"

text \<open>An empty file: no parser finds a root element.\<close>

definition empty_env :: env where
  "empty_env = file_env [] (Inl ParseError) (Inl ParseError)"

definition world0 :: world where
  "world0 = \<lparr>scratch = [], log = []\<rparr>"

text \<open>\<open><movie><maker>X</maker></movie>\<close>\<close>

definition maker_env :: env where
  "maker_env =
     file_env (ascii ''<movie><maker>X</maker></movie>'')
       (Inr (Element ''movie'' None [Element ''maker'' (Some (ascii ''X'')) []]))
       (Inr (DElem ''movie'' [DElem ''maker'' [DText (ascii ''X'')]]))"

text \<open>A file whose studio, director and plot are the placeholders themselves:
  \<open><movie><studio>U</studio><director>U</director><plot>P</plot><maker>X</maker></movie>\<close>
  with \<open>U\<close> the text \<open>unknown\<close> and \<open>P\<close> the text \<open>no_plot\<close>.\<close>

definition placeholder_env :: env where
  "placeholder_env =
     file_env
       (ascii ''<movie><studio>'' @ unknown @ ascii ''</studio><director>'' @ unknown
        @ ascii ''</director><plot>'' @ no_plot @ ascii ''</plot><maker>X</maker></movie>'')
       (Inr (Element ''movie'' None
          [Element ''studio'' (Some unknown) [], Element ''director'' (Some unknown) [],
           Element ''plot'' (Some no_plot) [], Element ''maker'' (Some (ascii ''X'')) []]))
       (Inr (DElem ''movie''
          [DElem ''studio'' [DText unknown], DElem ''director'' [DText unknown],
           DElem ''plot'' [DText no_plot], DElem ''maker'' [DText (ascii ''X'')]]))"

text \<open>The same with a title that is one tab:
  \<open><movie><studio>U</studio><director>U</director><plot>P</plot><title>TAB</title></movie>\<close>\<close>

definition tab_title_env :: env where
  "tab_title_env =
     file_env
       (ascii ''<movie><studio>'' @ unknown @ ascii ''</studio><director>'' @ unknown
        @ ascii ''</director><plot>'' @ no_plot @ ascii ''</plot><title>'' @ [9]
        @ ascii ''</title></movie>'')
       (Inr (Element ''movie'' None
          [Element ''studio'' (Some unknown) [], Element ''director'' (Some unknown) [],
           Element ''plot'' (Some no_plot) [], Element ''title'' (Some [9]) []]))
       (Inr (DElem ''movie''
          [DElem ''studio'' [DText unknown], DElem ''director'' [DText unknown],
           DElem ''plot'' [DText no_plot], DElem ''title'' [DText [9]]]))"

text \<open>\<open><movie><rating>8.25</rating></movie>\<close>\<close>

definition rating_env :: env where
  "rating_env =
     file_env (ascii ''<movie><rating>8.25</rating></movie>'')
       (Inr (Element ''movie'' None [Element ''rating'' (Some (ascii ''8.25'')) []]))
       (Inr (DElem ''movie'' [DElem ''rating'' [DText (ascii ''8.25'')]]))"


text \<open>The disk is full: the scratch file is created, writing to it fails.\<close>

definition disk_full_env :: env where
  "disk_full_env = (file_env (ascii ''<movie/>'') (Inr (Element ''movie'' None [])) 
                      (Inr (DElem ''movie'' [])))\<lparr>tmp_write_ok := (\<lambda>t. False)\<rparr>"

text \<open>\<open><movie><title>Tom & Jerry</title></movie>\<close>: the bare \<open>&\<close> makes the strict parse
  fail; the sanitised text, with \<open>&amp;\<close>, parses.\<close>

definition amp_env :: env where
  "amp_env =
     (file_env (ascii ''<movie><title>Tom & Jerry</title></movie>'')
        (Inl ParseError) (Inl ParseError))
     \<lparr>et_parse_tmp :=
        (\<lambda>t. if t = ascii ''<movie><title>Tom &amp; Jerry</title></movie>''
             then Inr (Element ''movie'' None [Element ''title'' (Some (ascii ''Tom & Jerry'')) []])
             else Inl ParseError)\<rparr>"

text \<open>The placeholder file with a title that is one zero-width space (U+200B, of
  category \<open>Cf\<close> and no whitespace):
  \<open><movie><studio>U</studio><director>U</director><plot>P</plot><title>ZWSP</title></movie>\<close>\<close>

definition zwsp_title_env :: env where
  "zwsp_title_env =
     (file_env
       (ascii ''<movie><studio>'' @ unknown @ ascii ''</studio><director>'' @ unknown
        @ ascii ''</director><plot>'' @ no_plot @ ascii ''</plot><title>'' @ [8203]
        @ ascii ''</title></movie>'')
       (Inr (Element ''movie'' None
          [Element ''studio'' (Some unknown) [], Element ''director'' (Some unknown) [],
           Element ''plot'' (Some no_plot) [], Element ''title'' (Some [8203]) []]))
       (Inr (DElem ''movie''
          [DElem ''studio'' [DText unknown], DElem ''director'' [DText unknown],
           DElem ''plot'' [DText no_plot], DElem ''title'' [DText [8203]]])))
     \<lparr>category := (\<lambda>c. if c = 8203 then ''Cf'' else ex_category c)\<rparr>"







text \<open>A configuration whose placeholder for the studio is \<open>Unknown\<close>.\<close>

definition english_defaults :: pydict where
  "english_defaults =
     [(''rating'', VFloat (Finite 0)), (''studio'', VStr (ascii ''Unknown'')),
      (''director'', VStr unknown), (''plot'', VStr no_plot)]"

section \<open>Notions the properties are stated with\<close>

text \<open>The dict a call of \<open>parse_nfo\<close> returned.\<close>

definition result_of :: "(exn + pydict) \<times> world \<Rightarrow> pydict" where
  "result_of r = (case fst r of Inr d \<Rightarrow> d | Inl e \<Rightarrow> [])"

text \<open>The events one call of \<open>parse_nfo\<close> adds to the log.\<close>

definition trace :: "env \<Rightarrow> pydict \<Rightarrow> path \<Rightarrow> world \<Rightarrow> event list" where
  "trace E defaults p w = drop (length (log w)) (log (snd (parse_nfo E (Dict defaults) p w)))"

text \<open>The dict as one strategy leaves it. No strategy looks at the scratch files or the
  log to decide what it writes (\<open>well_behaved\<close> below).\<close>

definition dict_after :: "strategy \<Rightarrow> env \<Rightarrow> path \<Rightarrow> pydict \<Rightarrow> pydict" where
  "dict_after S E p d = fst (snd (S E p d \<lparr>scratch = [], log = []\<rparr>))"

definition quiet :: "event list \<Rightarrow> bool" where
  "quiet evs = (attempted evs = [] \<and> accepted evs = [])"

definition well_behaved :: "strategy \<Rightarrow> bool" where
  "well_behaved S =
     (\<forall>E p d w. fst (snd (S E p d w)) = dict_after S E p d
        \<and> (\<exists>evs. log (snd (snd (S E p d w))) = log w @ evs \<and> quiet evs))"








text \<open>Whether a strategy returns or raises does not depend on the scratch files or the
  log either.\<close>

definition steady :: "strategy \<Rightarrow> bool" where
  "steady S = (\<forall>E p d w. fst (S E p d w) = fst (S E p d \<lparr>scratch = [], log = []\<rparr>))"

text \<open>A strategy is accepted on a dict when, run on it, it returns and the record it
  leaves is not empty and passes the heuristic.\<close>

definition accepts :: "env \<Rightarrow> pydict \<Rightarrow> path \<Rightarrow> strategy \<Rightarrow> pydict \<Rightarrow> bool" where
  "accepts E defaults p S d =
     (fst (S E p d \<lparr>scratch = [], log = []\<rparr>) = Returned
      \<and> dict_after S E p d \<noteq> []
      \<and> has_meaningful_data defaults (dict_after S E p d) = Inr True)"

text \<open>The strategy chain in the words of the specification: the strategies are tried in
  the order of the list; the first one that is accepted ends the chain and its record
  is returned; when none is, the record as the attempts left it is returned. The result
  is the strategies attempted, the strategy accepted (if any) and the record returned.\<close>

fun chain ::
  "env \<Rightarrow> pydict \<Rightarrow> path \<Rightarrow> (nat \<times> strategy) list \<Rightarrow> pydict \<Rightarrow> nat list \<times> nat list \<times> pydict" where
  "chain E defaults p [] d = ([], [], d)"
| "chain E defaults p ((i, S) # ps) d =
     (if accepts E defaults p S d then ([i], [i], dict_after S E p d)
      else (case chain E defaults p ps (dict_after S E p d) of
              (tried, acc, r) \<Rightarrow> (i # tried, acc, r)))"


section \<open>Dicts\<close>

lemma dict_get_set:
  "dict_get (dict_set k v d) k' x = (if k' = k then v else dict_get d k' x)"
  by (simp add: dict_get_def dict_set_def update_conv')

lemma map_of_dict_set: "map_of (dict_set k v d) = (map_of d)(k \<mapsto> v)"
  by (simp add: dict_set_def update_conv')


lemma dict_set_not_empty: "dict_set k v d \<noteq> []"
  by (cases d) (auto simp: dict_set_def)

section \<open>No strategy removes a key\<close>













section \<open>The loop of \<open>parse_nfo\<close>\<close>

lemma attempted_append: "attempted (xs @ ys) = attempted xs @ attempted ys"
  by (induction xs rule: attempted.induct) simp_all

lemma accepted_append: "accepted (xs @ ys) = accepted xs @ accepted ys"
  by (induction xs rule: accepted.induct) simp_all

lemma well_behaved_standard: "well_behaved parse_standard_xml"
  by (auto simp: well_behaved_def dict_after_def parse_standard_xml_def quiet_def
           split: sum.splits)

lemma well_behaved_recovery: "well_behaved parse_with_recovery"
  unfolding well_behaved_def
proof (intro allI conjI)
  fix E p d w
  show "fst (snd (parse_with_recovery E p d w)) = dict_after parse_with_recovery E p d"
    by (simp add: dict_after_def parse_with_recovery_def Let_def split: sum.splits)
  have "log (snd (snd (parse_with_recovery E p d w))) = log w @ []
      \<or> log (snd (snd (parse_with_recovery E p d w))) = log w @ [RecoveryOk]"
    by (simp add: parse_with_recovery_def Let_def unlink_def split: sum.splits)
  then show "\<exists>evs. log (snd (snd (parse_with_recovery E p d w))) = log w @ evs \<and> quiet evs"
    by (auto simp: quiet_def)
qed

lemma well_behaved_line: "well_behaved parse_line_by_line"
  by (auto simp: well_behaved_def dict_after_def parse_line_by_line_def quiet_def Let_def
           split: sum.splits)

lemma well_behaved_minidom: "well_behaved parse_with_minidom"
  by (auto simp: well_behaved_def dict_after_def parse_with_minidom_def quiet_def
           split: sum.splits)

lemma parsers_well_behaved: "list_all (\<lambda>ip. well_behaved (snd ip)) parsers"
  by (simp add: parsers_def well_behaved_standard well_behaved_recovery well_behaved_line
        well_behaved_minidom)

lemma attempt_char:
  assumes wb: "well_behaved S" and a: "attempt E defaults p i S d w = (r, d1, w1)"
  shows "d1 = dict_after S E p d \<and>
         (\<exists>evs. log w1 = log w @ evs \<and> attempted evs = [i] \<and>
            ((r = None \<and> accepted evs = []) \<or>
             (r = Some d1 \<and> accepted evs = [i] \<and> has_meaningful_data defaults d1 = Inr True)))"
proof -
  let ?w0 = "w\<lparr>log := log w @ [Attempt i]\<rparr>"
  obtain out d' w' where run: "S E p d ?w0 = (out, d', w')"
    by (cases "S E p d ?w0") auto
  from wb have "fst (snd (S E p d ?w0)) = dict_after S E p d"
    and "\<exists>evs. log (snd (snd (S E p d ?w0))) = log ?w0 @ evs \<and> quiet evs"
    unfolding well_behaved_def by blast+
  with run obtain evs where d': "d' = dict_after S E p d"
    and l: "log w' = log w @ [Attempt i] @ evs" and q: "quiet evs"
    by auto
  from q have att: "attempted ([Attempt i] @ evs @ tl) = i # attempted tl"
    and acc: "accepted ([Attempt i] @ evs @ tl) = accepted tl" for tl
    by (simp_all add: quiet_def attempted_append accepted_append)
  from a run have cases:
    "d1 = d' \<and> ((r = None \<and> w1 = w') 
        \<or> (\<exists>e. r = None \<and> w1 = w'\<lparr>log := log w' @ [Failed i e]\<rparr>)
        \<or> (r = Some d1 \<and> w1 = w'\<lparr>log := log w' @ [Accepted i]\<rparr>
             \<and> has_meaningful_data defaults d1 = Inr True))"
    by (auto simp: attempt_def split: outcome.splits if_splits sum.splits)
  then have d1: "d1 = d'" by simp
  from cases consider
      (quiet) "r = None" "w1 = w'"
    | (failed) e where "r = None" "w1 = w'\<lparr>log := log w' @ [Failed i e]\<rparr>"
    | (ok) "r = Some d1" "w1 = w'\<lparr>log := log w' @ [Accepted i]\<rparr>"
           "has_meaningful_data defaults d1 = Inr True"
    by blast
  then have "\<exists>evs. log w1 = log w @ evs \<and> attempted evs = [i] \<and>
            ((r = None \<and> accepted evs = []) \<or>
             (r = Some d1 \<and> accepted evs = [i] \<and> has_meaningful_data defaults d1 = Inr True))"
  proof cases
    case quiet
    with l att [of "[]"] acc [of "[]"] show ?thesis
      by (intro exI [of _ "[Attempt i] @ evs @ []"]) simp
  next
    case failed
    with l att [of "[Failed i e]"] acc [of "[Failed i e]"] show ?thesis
      by (intro exI [of _ "[Attempt i] @ evs @ [Failed i e]"]) simp
  next
    case ok
    with l att [of "[Accepted i]"] acc [of "[Accepted i]"] show ?thesis
      by (intro exI [of _ "[Attempt i] @ evs @ [Accepted i]"]) simp
  qed
  with d1 d' show ?thesis by simp
qed

lemma run_parsers_char:
  assumes "list_all (\<lambda>ip. well_behaved (snd ip)) ps"
  shows "\<exists>k evs. k \<le> length ps
           \<and> log (snd (run_parsers E defaults p ps d w)) = log w @ evs
           \<and> attempted evs = take k (map fst ps)
           \<and> fst (run_parsers E defaults p ps d w)
               = foldl (\<lambda>d S. dict_after S E p d) d (take k (map snd ps))
           \<and> ((accepted evs = [] \<and> k = length ps)
               \<or> (0 < k \<and> accepted evs = [fst (ps ! (k - 1))]
                   \<and> has_meaningful_data defaults (fst (run_parsers E defaults p ps d w)) = Inr True))"
  using assms
proof (induction ps arbitrary: d w)
  case Nil
  show ?case by (intro exI [of _ 0] exI [of _ "[AllFailed]"]) simp
next
  case (Cons ip ps)
  obtain i S where ip: "ip = (i, S)" by (cases ip)
  obtain r d1 w1 where a: "attempt E defaults p i S d w = (r, d1, w1)"
    by (cases "attempt E defaults p i S d w") auto
  from Cons.prems ip have wb: "well_behaved S"
    and rest: "list_all (\<lambda>ip. well_behaved (snd ip)) ps" by simp_all
  from attempt_char [OF wb a] obtain evs1 where d1: "d1 = dict_after S E p d"
    and l1: "log w1 = log w @ evs1" and att1: "attempted evs1 = [i]"
    and alt: "(r = None \<and> accepted evs1 = []) \<or>
              (r = Some d1 \<and> accepted evs1 = [i] \<and> has_meaningful_data defaults d1 = Inr True)"
    by blast
  from alt show ?case
  proof
    assume none: "r = None \<and> accepted evs1 = []"
    with a ip have run: "run_parsers E defaults p (ip # ps) d w = run_parsers E defaults p ps d1 w1"
      by simp
    from Cons.IH [OF rest, of d1 w1] obtain k evs where k: "k \<le> length ps"
      and l: "log (snd (run_parsers E defaults p ps d1 w1)) = log w1 @ evs"
      and att: "attempted evs = take k (map fst ps)"
      and dat: "fst (run_parsers E defaults p ps d1 w1)
                 = foldl (\<lambda>d S. dict_after S E p d) d1 (take k (map snd ps))"
      and fin: "(accepted evs = [] \<and> k = length ps)
               \<or> (0 < k \<and> accepted evs = [fst (ps ! (k - 1))]
                   \<and> has_meaningful_data defaults (fst (run_parsers E defaults p ps d1 w1)) = Inr True)"
      by blast
    from fin have fin': "(accepted (evs1 @ evs) = [] \<and> Suc k = length (ip # ps))
               \<or> (0 < Suc k \<and> accepted (evs1 @ evs) = [fst ((ip # ps) ! (Suc k - 1))]
                   \<and> has_meaningful_data defaults (fst (run_parsers E defaults p (ip # ps) d w)) = Inr True)"
      using none run by (cases k) (auto simp: accepted_append)
    show ?thesis
      apply (intro exI [of _ "Suc k"] exI [of _ "evs1 @ evs"] conjI)
      subgoal using k by simp
      subgoal using run l l1 by simp
      subgoal using att att1 ip by (simp add: attempted_append)
      subgoal using run dat d1 ip by simp
      subgoal using fin' .
      done
  next
    assume some: "r = Some d1 \<and> accepted evs1 = [i] \<and> has_meaningful_data defaults d1 = Inr True"
    with a ip have run: "run_parsers E defaults p (ip # ps) d w = (d1, w1)"
      by simp
    show ?thesis
      apply (intro exI [of _ "Suc 0"] exI [of _ evs1] conjI)
      subgoal by simp
      subgoal using run l1 by simp
      subgoal using att1 ip by simp
      subgoal using run d1 ip by simp
      subgoal using run some ip by simp
      done
  qed
qed

lemma parse_nfo_char:
  "\<exists>k. 1 \<le> k \<and> k \<le> 4
       \<and> attempted (trace E defaults p w) = take k [1, 2, 3, 4]
       \<and> fst (parse_nfo E (Dict defaults) p w)
            = Inr (foldl (\<lambda>d S. dict_after S E p d) (init_data defaults) (take k (map snd parsers)))
       \<and> ((accepted (trace E defaults p w) = [] \<and> k = 4)
           \<or> (accepted (trace E defaults p w) = [k]
               \<and> (\<exists>d. fst (parse_nfo E (Dict defaults) p w) = Inr d
                        \<and> has_meaningful_data defaults d = Inr True)))"
proof -
  let ?w0 = "w\<lparr>log := log w @ [Start]\<rparr>"
  let ?run = "run_parsers E defaults p parsers (init_data defaults) ?w0"
  from run_parsers_char [OF parsers_well_behaved, of E defaults p "init_data defaults" ?w0]
  obtain k evs where k: "k \<le> length parsers"
    and l: "log (snd ?run) = log ?w0 @ evs"
    and att: "attempted evs = take k (map fst parsers)"
    and dat: "fst ?run = foldl (\<lambda>d S. dict_after S E p d) (init_data defaults) (take k (map snd parsers))"
    and fin: "(accepted evs = [] \<and> k = length parsers)
               \<or> (0 < k \<and> accepted evs = [fst (parsers ! (k - 1))]
                   \<and> has_meaningful_data defaults (fst ?run) = Inr True)"
    by blast
  have res: "fst (parse_nfo E (Dict defaults) p w) = Inr (fst ?run)"
    and lg: "log (snd (parse_nfo E (Dict defaults) p w)) = log (snd ?run)"
    by (simp_all add: parse_nfo_def split: prod.splits)
  from lg l have tr: "trace E defaults p w = Start # evs"
    by (simp add: trace_def)
  have k4: "k \<le> 4" using k by (simp add: parsers_def)
  have nth: "0 < k \<Longrightarrow> fst (parsers ! (k - 1)) = k"
  proof -
    assume "0 < k"
    with k4 have "k = 1 \<or> k = 2 \<or> k = 3 \<or> k = 4" by arith
    then show ?thesis by (auto simp: parsers_def)
  qed
  have pos: "1 \<le> k" using fin by (auto simp: parsers_def)
  show ?thesis
    apply (intro exI [of _ k] conjI)
    subgoal using pos .
    subgoal using k4 .
    subgoal using tr att by (simp add: parsers_def)
    subgoal using res dat by simp
    subgoal using fin tr res nth by (auto simp: parsers_def)
    done
qed

lemma date_loop_not_empty: "d \<noteq> [] \<Longrightarrow> date_loop E rt fs d \<noteq> []"
  by (induction fs) (auto simp: dict_set_not_empty split: option.splits)

lemma extract_data_safe_not_empty: "extract_data_safe E rt d \<noteq> []"
  unfolding extract_data_safe_def Let_def
  by (rule date_loop_not_empty) (rule dict_set_not_empty)

lemma parse_nfo_first_accepted:
  assumes "et_parse E p = Inr rt"
    and "has_meaningful_data defaults (extract_data_safe E rt (init_data defaults)) = Inr True"
  shows "parse_nfo E (Dict defaults) p w =
           (Inr (extract_data_safe E rt (init_data defaults)),
            w\<lparr>log := log w @ [Start, Attempt 1, Accepted 1]\<rparr>)"
  using assms
  by (simp add: parse_nfo_def parsers_def attempt_def parse_standard_xml_def
        extract_data_safe_not_empty)

lemma parse_nfo_all_raise:
  assumes "et_parse E p = Inl e1" and "open_read E p = Inl e2" and "minidom_parse E p = Inl e3"
  shows "parse_nfo E (Dict defaults) p w =
           (Inr (init_data defaults),
            w\<lparr>log := log w @ [Start, Attempt 1, Failed 1 e1, Attempt 2, Failed 2 e2,
                               Attempt 3, Failed 3 e2, Attempt 4, Failed 4 PlainException,
                               AllFailed]\<rparr>)"
  using assms
  by (simp add: parse_nfo_def parsers_def attempt_def parse_standard_xml_def
        parse_with_recovery_def parse_line_by_line_def parse_with_minidom_def)

section \<open>The loop against the chain of the specification\<close>

lemma steady_standard: "steady parse_standard_xml"
  by (simp add: steady_def parse_standard_xml_def split: sum.splits)

lemma steady_recovery: "steady parse_with_recovery"
  by (simp add: steady_def parse_with_recovery_def Let_def split: sum.splits)

lemma steady_line: "steady parse_line_by_line"
  by (simp add: steady_def parse_line_by_line_def Let_def split: sum.splits)

lemma steady_minidom: "steady parse_with_minidom"
  by (simp add: steady_def parse_with_minidom_def split: sum.splits)

lemma parsers_steady: "list_all (\<lambda>ip. steady (snd ip)) parsers"
  by (simp add: parsers_def steady_standard steady_recovery steady_line steady_minidom)

lemma attempt_accepts:
  assumes wb: "well_behaved S" and st: "steady S"
    and a: "attempt E defaults p i S d w = (r, d1, w1)"
  shows "r = (if accepts E defaults p S d then Some (dict_after S E p d) else None)"
proof -
  let ?w0 = "w\<lparr>log := log w @ [Attempt i]\<rparr>"
  obtain out d' w' where run: "S E p d ?w0 = (out, d', w')"
    by (cases "S E p d ?w0") auto
  from wb have "fst (snd (S E p d ?w0)) = dict_after S E p d"
    unfolding well_behaved_def by blast
  with run have d': "d' = dict_after S E p d" by simp
  from st have "fst (S E p d ?w0) = fst (S E p d \<lparr>scratch = [], log = []\<rparr>)"
    unfolding steady_def by blast
  with run have out: "fst (S E p d \<lparr>scratch = [], log = []\<rparr>) = out" by simp
  from a run d' out show ?thesis
    by (auto simp: attempt_def accepts_def split: outcome.splits if_splits sum.splits)
qed

lemma run_parsers_chain:
  assumes "list_all (\<lambda>ip. well_behaved (snd ip)) ps" and "list_all (\<lambda>ip. steady (snd ip)) ps"
  shows "\<exists>evs. log (snd (run_parsers E defaults p ps d w)) = log w @ evs
           \<and> chain E defaults p ps d
                = (attempted evs, accepted evs, fst (run_parsers E defaults p ps d w))"
  using assms
proof (induction ps arbitrary: d w)
  case Nil
  show ?case by (intro exI [of _ "[AllFailed]"]) simp
next
  case (Cons ip ps)
  obtain i S where ip: "ip = (i, S)" by (cases ip)
  obtain r d1 w1 where a: "attempt E defaults p i S d w = (r, d1, w1)"
    by (cases "attempt E defaults p i S d w") auto
  from Cons.prems ip have wb: "well_behaved S" and st: "steady S"
    and rest: "list_all (\<lambda>ip. well_behaved (snd ip)) ps" "list_all (\<lambda>ip. steady (snd ip)) ps"
    by simp_all
  from attempt_char [OF wb a] obtain evs1 where d1: "d1 = dict_after S E p d"
    and l1: "log w1 = log w @ evs1" and att1: "attempted evs1 = [i]"
    and alt: "(r = None \<and> accepted evs1 = []) \<or>
              (r = Some d1 \<and> accepted evs1 = [i] \<and> has_meaningful_data defaults d1 = Inr True)"
    by blast
  have r: "r = (if accepts E defaults p S d then Some (dict_after S E p d) else None)"
    by (rule attempt_accepts [OF wb st a])
  show ?case
    unfolding ip
  proof (cases "accepts E defaults p S d")
    case True
    with r d1 have rs: "r = Some d1" by simp
    with alt have acc1: "accepted evs1 = [i]" by simp
    from rs a have run: "run_parsers E defaults p ((i, S) # ps) d w = (d1, w1)" by simp
    have "log (snd (run_parsers E defaults p ((i, S) # ps) d w)) = log w @ evs1"
      unfolding run by (simp add: l1)
    moreover have "chain E defaults p ((i, S) # ps) d
        = (attempted evs1, accepted evs1, fst (run_parsers E defaults p ((i, S) # ps) d w))"
      unfolding run by (simp add: True att1 acc1 d1)
    ultimately show "\<exists>evs. log (snd (run_parsers E defaults p ((i, S) # ps) d w)) = log w @ evs
           \<and> chain E defaults p ((i, S) # ps) d
                = (attempted evs, accepted evs, fst (run_parsers E defaults p ((i, S) # ps) d w))"
      by blast
  next
    case False
    with r have rn: "r = None" by simp
    with alt have acc1: "accepted evs1 = []" by simp
    from rn a have run:
      "run_parsers E defaults p ((i, S) # ps) d w = run_parsers E defaults p ps d1 w1" by simp
    from Cons.IH [OF rest, of d1 w1] obtain evs where
      l: "log (snd (run_parsers E defaults p ps d1 w1)) = log w1 @ evs"
      and c: "chain E defaults p ps d1
                = (attempted evs, accepted evs, fst (run_parsers E defaults p ps d1 w1))"
      by blast
    have "log (snd (run_parsers E defaults p ((i, S) # ps) d w)) = log w @ (evs1 @ evs)"
      unfolding run by (simp add: l l1)
    moreover have "chain E defaults p ((i, S) # ps) d
        = (attempted (evs1 @ evs), accepted (evs1 @ evs),
           fst (run_parsers E defaults p ((i, S) # ps) d w))"
      unfolding run using c
      by (simp add: False att1 acc1 d1 attempted_append accepted_append)
    ultimately show "\<exists>evs. log (snd (run_parsers E defaults p ((i, S) # ps) d w)) = log w @ evs
           \<and> chain E defaults p ((i, S) # ps) d
                = (attempted evs, accepted evs, fst (run_parsers E defaults p ((i, S) # ps) d w))"
      by blast
  qed
qed

lemma parse_nfo_chain:
  "(attempted (trace E defaults p w), accepted (trace E defaults p w),
    result_of (parse_nfo E (Dict defaults) p w))
     = chain E defaults p parsers (init_data defaults)"
proof -
  let ?w0 = "w\<lparr>log := log w @ [Start]\<rparr>"
  let ?run = "run_parsers E defaults p parsers (init_data defaults) ?w0"
  from run_parsers_chain [OF parsers_well_behaved parsers_steady, of E defaults p
      "init_data defaults" ?w0]
  obtain evs where l: "log (snd ?run) = log ?w0 @ evs"
    and c: "chain E defaults p parsers (init_data defaults)
              = (attempted evs, accepted evs, fst ?run)"
    by blast
  have res: "result_of (parse_nfo E (Dict defaults) p w) = fst ?run"
    and lg: "log (snd (parse_nfo E (Dict defaults) p w)) = log (snd ?run)"
    by (simp_all add: parse_nfo_def result_of_def split: prod.splits)
  from lg l have tr: "trace E defaults p w = Start # evs"
    by (simp add: trace_def)
  show ?thesis by (simp add: tr res c)
qed

section \<open>What the tree walk writes\<close>

lemma extract_field_safe_other:
  "f \<noteq> k \<Longrightarrow> dict_get (extract_field_safe E rt d f) k x = dict_get d k x"
  by (auto simp: extract_field_safe_def Let_def dict_get_set split: option.splits)

lemma extract_field_safe_absent:
  "truthy_text (find_child f rt) = None \<Longrightarrow> extract_field_safe E rt d f = d"
  by (simp add: extract_field_safe_def)

lemma date_loop_other:
  "k \<noteq> ''release_date'' \<Longrightarrow> dict_get (date_loop E rt fs d) k x = dict_get d k x"
  by (induction fs) (auto simp: dict_get_set split: option.splits)

lemma rating_step:
  "dict_get (extract_field_safe E rt d ''rating'') ''rating'' x =
     (case truthy_text (find_child ''rating'' rt) of
        None \<Rightarrow> dict_get d ''rating'' x
      | Some t \<Rightarrow>
          if clean_text E t = [] then dict_get d ''rating'' x
          else (case py_float E (clean_text E t) of
                  Some v \<Rightarrow> VFloat v
                | None \<Rightarrow> dict_get d ''rating'' x))"
  by (simp add: extract_field_safe_def Let_def dict_get_set split: option.splits)

lemma rating_after_fields:
  "dict_get (foldl (extract_field_safe E rt) d field_tags) ''rating'' x
     = dict_get (extract_field_safe E rt d ''rating'') ''rating'' x"
  by (simp add: field_tags_def extract_field_safe_other rating_step split: option.splits)

lemma rating_after_extract:
  "dict_get (extract_data_safe E rt d) ''rating'' x
     = dict_get (extract_field_safe E rt d ''rating'') ''rating'' x"
  by (simp add: extract_data_safe_def Let_def date_loop_other dict_get_set rating_after_fields
        del: date_loop.simps)

lemma rating_after_lines:
  assumes "open_read E p = Inr content"
  shows "dict_get (dict_after parse_line_by_line E p d) ''rating'' x =
           (if extract_field E ''rating'' content = [] then dict_get d ''rating'' x
            else (case py_float E (extract_field E ''rating'' content) of
                    Some v \<Rightarrow> VFloat v
                  | None \<Rightarrow> dict_get d ''rating'' x))"
  using assms
  by (simp add: dict_after_def parse_line_by_line_def Let_def dict_get_set split: option.splits)















section \<open>The scratch file of the recovery strategy\<close>

lemma fold_max_ge: "a \<le> fold max ns (a::nat)"
  by (induction ns arbitrary: a) (auto intro: order_trans [OF max.cobounded2])

lemma fold_max_mem: "n \<in> set ns \<Longrightarrow> n \<le> fold max ns (a::nat)"
proof (induction ns arbitrary: a)
  case Nil
  then show ?case by simp
next
  case (Cons m ns)
  show ?case
  proof (cases "n = m")
    case True
    have "m \<le> max m a" by simp
    also have "\<dots> \<le> fold max ns (max m a)" by (rule fold_max_ge)
    finally show ?thesis using True by simp
  next
    case False
    with Cons.prems have "n \<in> set ns" by simp
    then show ?thesis using Cons.IH by simp
  qed
qed

lemma fresh_notin: "fresh ns \<notin> set ns"
proof
  assume "fresh ns \<in> set ns"
  then have "fresh ns \<le> fold max ns 0" by (rule fold_max_mem)
  then show False by (simp add: fresh_def)
qed

lemma recovery_scratch:
  "scratch (snd (snd (parse_with_recovery E p d w))) =
     (case open_read E p of
        Inl e \<Rightarrow> scratch w
      | Inr content \<Rightarrow>
          if tmp_create_ok E \<and> tmp_write_ok E (fix_xml_issues E content) = False
          then fresh (scratch w) # scratch w
          else scratch w)"
  by (simp add: parse_with_recovery_def Let_def unlink_def fresh_notin
           split: sum.splits)

section \<open>The heuristic on a well-typed record\<close>

lemma has_meaningful_data_code:
  assumes "dict_get d ''title'' (VStr []) = VStr t" and "dict_get d ''studio'' (VStr []) = VStr s"
    and "dict_get d ''director'' (VStr []) = VStr dr" and "dict_get d ''plot'' (VStr []) = VStr pl"
    and "dict_get d ''rating'' (VFloat (Finite 0)) = VFloat r"
    and "dict_get d ''actors'' (VList []) = VList as"
    and "dict_get d ''genre'' (VList []) = VList gs"
    and "dict_get d ''release_date'' (VStr []) = VStr rd"
  shows "has_meaningful_data defaults d =
           Inr (strip t \<noteq> [] \<or> strip s \<noteq> unknown \<or> strip dr \<noteq> unknown
                \<or> VStr (strip pl) \<noteq> dict_get defaults ''plot'' (VStr [])
                \<or> num_gt0 r \<or> as \<noteq> [] \<or> gs \<noteq> [] \<or> strip rd \<noteq> [])"
  using assms
  by (simp add: has_meaningful_data_def py_strip_def py_gt0_def py_len_def)

section \<open>Totality of \<open>parse_nfo\<close>\<close>

lemma run_parsers_log:
  "\<exists>evs. log (snd (run_parsers E defaults p parsers d w)) = log w @ evs"
  using run_parsers_char [OF parsers_well_behaved, of E defaults p d w] by blast




section \<open>The order of the strategies\<close>

text \<open>
  Claim C2, as amended. The strategies are tried in the fixed order 1, 2, 3, 4, each on
  the shared record as the attempts before it left it. The first strategy that is
  accepted -- it returns, and the record passes the heuristic -- ends the run: the
  strategies attempted are those up to it, no later one is invoked, and the record
  returned is the record as that strategy left it. When none is accepted, all four are
  attempted and the record returned is the record as the four attempts left it. A
  document that strategy 1 parses and whose extracted record passes the heuristic is
  handled by strategy 1 alone. When every strategy raises (an unreadable file), the
  default-initialised record is returned.
\<close>

theorem strategy_chain:
  "(let d0 = init_data defaults;
        d1 = dict_after parse_standard_xml E p d0;
        d2 = dict_after parse_with_recovery E p d1;
        d3 = dict_after parse_line_by_line E p d2;
        d4 = dict_after parse_with_minidom E p d3;
        a1 = accepts E defaults p parse_standard_xml d0;
        a2 = accepts E defaults p parse_with_recovery d1;
        a3 = accepts E defaults p parse_line_by_line d2;
        a4 = accepts E defaults p parse_with_minidom d3;
        tried = attempted (trace E defaults p w);
        acc = accepted (trace E defaults p w);
        res = result_of (parse_nfo E (Dict defaults) p w)
    in (a1 \<longrightarrow> tried = [1] \<and> acc = [1] \<and> res = d1)
     \<and> (a2 \<and> a1 = False \<longrightarrow> tried = [1, 2] \<and> acc = [2] \<and> res = d2)
     \<and> (a3 \<and> a1 = False \<and> a2 = False \<longrightarrow> tried = [1, 2, 3] \<and> acc = [3] \<and> res = d3)
     \<and> (a4 \<and> a1 = False \<and> a2 = False \<and> a3 = False
           \<longrightarrow> tried = [1, 2, 3, 4] \<and> acc = [4] \<and> res = d4)
     \<and> (a1 = False \<and> a2 = False \<and> a3 = False \<and> a4 = False
           \<longrightarrow> tried = [1, 2, 3, 4] \<and> acc = [] \<and> res = d4))
   \<and> (\<forall>rt. et_parse E p = Inr rt
             \<and> has_meaningful_data defaults (extract_data_safe E rt (init_data defaults)) = Inr True
         \<longrightarrow> attempted (trace E defaults p w) = [1]
             \<and> accepted (trace E defaults p w) = [1]
             \<and> result_of (parse_nfo E (Dict defaults) p w)
                 = extract_data_safe E rt (init_data defaults))
   \<and> (\<forall>e1 e2 e3. et_parse E p = Inl e1 \<and> open_read E p = Inl e2 \<and> minidom_parse E p = Inl e3
         \<longrightarrow> attempted (trace E defaults p w) = [1, 2, 3, 4]
             \<and> accepted (trace E defaults p w) = []
             \<and> result_of (parse_nfo E (Dict defaults) p w) = init_data defaults)"
proof (intro conjI allI impI)
  from parse_nfo_chain [of E defaults p w]
  show "let d0 = init_data defaults;
        d1 = dict_after parse_standard_xml E p d0;
        d2 = dict_after parse_with_recovery E p d1;
        d3 = dict_after parse_line_by_line E p d2;
        d4 = dict_after parse_with_minidom E p d3;
        a1 = accepts E defaults p parse_standard_xml d0;
        a2 = accepts E defaults p parse_with_recovery d1;
        a3 = accepts E defaults p parse_line_by_line d2;
        a4 = accepts E defaults p parse_with_minidom d3;
        tried = attempted (trace E defaults p w);
        acc = accepted (trace E defaults p w);
        res = result_of (parse_nfo E (Dict defaults) p w)
    in (a1 \<longrightarrow> tried = [1] \<and> acc = [1] \<and> res = d1)
     \<and> (a2 \<and> a1 = False \<longrightarrow> tried = [1, 2] \<and> acc = [2] \<and> res = d2)
     \<and> (a3 \<and> a1 = False \<and> a2 = False \<longrightarrow> tried = [1, 2, 3] \<and> acc = [3] \<and> res = d3)
     \<and> (a4 \<and> a1 = False \<and> a2 = False \<and> a3 = False
           \<longrightarrow> tried = [1, 2, 3, 4] \<and> acc = [4] \<and> res = d4)
     \<and> (a1 = False \<and> a2 = False \<and> a3 = False \<and> a4 = False
           \<longrightarrow> tried = [1, 2, 3, 4] \<and> acc = [] \<and> res = d4)"
    by (simp add: parsers_def Let_def split: if_splits)
next
  fix rt
  assume h: "et_parse E p = Inr rt
     \<and> has_meaningful_data defaults (extract_data_safe E rt (init_data defaults)) = Inr True"
  then have run: "parse_nfo E (Dict defaults) p w =
           (Inr (extract_data_safe E rt (init_data defaults)),
            w\<lparr>log := log w @ [Start, Attempt 1, Accepted 1]\<rparr>)"
    by (simp add: parse_nfo_first_accepted)
  show "attempted (trace E defaults p w) = [1]" by (simp add: trace_def run)
  show "accepted (trace E defaults p w) = [1]" by (simp add: trace_def run)
  show "result_of (parse_nfo E (Dict defaults) p w) = extract_data_safe E rt (init_data defaults)"
    by (simp add: result_of_def run)
next
  fix e1 e2 e3
  assume h: "et_parse E p = Inl e1 \<and> open_read E p = Inl e2 \<and> minidom_parse E p = Inl e3"
  then have run: "parse_nfo E (Dict defaults) p w =
           (Inr (init_data defaults),
            w\<lparr>log := log w @ [Start, Attempt 1, Failed 1 e1, Attempt 2, Failed 2 e2,
                               Attempt 3, Failed 3 e2, Attempt 4, Failed 4 PlainException,
                               AllFailed]\<rparr>)"
    by (simp add: parse_nfo_all_raise)
  show "attempted (trace E defaults p w) = [1, 2, 3, 4]" by (simp add: trace_def run)
  show "accepted (trace E defaults p w) = []" by (simp add: trace_def run)
  show "result_of (parse_nfo E (Dict defaults) p w) = init_data defaults"
    by (simp add: result_of_def run)
qed

section \<open>What the returned record holds\<close>

text \<open>
  Claim C7, as amended. All strategies write into the one dict that \<open>parse_nfo\<close>
  created, so the record returned is the initial record overwritten in turn by every
  strategy that was attempted, up to and including the accepted one (all four when none
  is accepted): a value written by an earlier attempt that was not accepted stays
  unless a later attempt overwrites it.
\<close>

theorem record_is_all_attempts:
  "\<exists>k. 1 \<le> k \<and> k \<le> 4
       \<and> attempted (trace E defaults p w) = take k [1, 2, 3, 4]
       \<and> result_of (parse_nfo E (Dict defaults) p w)
            = foldl (\<lambda>d S. dict_after S E p d) (init_data defaults)
                (take k [parse_standard_xml, parse_with_recovery, parse_line_by_line,
                         parse_with_minidom])"
  using parse_nfo_char [of E defaults p w]
  by (auto simp: result_of_def parsers_def)

section \<open>An unreadable file\<close>

text \<open>
  Claim C3, as amended. When the file cannot be read (both XML parsers and the reading
  of the file raise), the record returned holds, for every field, its default: empty
  text for title, release date and series, empty lists for actors and genre, and for
  rating, plot, studio, director, maker and publisher the configured default, or the
  built-in one where the configuration has none. The record has no runtime entry.
\<close>

theorem unreadable_gives_defaults:
  assumes "et_parse E p = Inl e1" and "open_read E p = Inl e2" and "minidom_parse E p = Inl e3"
  shows "\<exists>d. fst (parse_nfo E (Dict defaults) p w) = Inr d
           \<and> map_of d ''title'' = Some (VStr [])
           \<and> map_of d ''release_date'' = Some (VStr [])
           \<and> map_of d ''series'' = Some (VStr [])
           \<and> map_of d ''runtime'' = None
           \<and> map_of d ''actors'' = Some (VList [])
           \<and> map_of d ''genre'' = Some (VList [])
           \<and> map_of d ''rating'' = Some (dict_get defaults ''rating'' (VFloat (Finite 0)))
           \<and> map_of d ''plot'' = Some (dict_get defaults ''plot'' (VStr no_plot))
           \<and> map_of d ''studio'' = Some (dict_get defaults ''studio'' (VStr unknown))
           \<and> map_of d ''director'' = Some (dict_get defaults ''director'' (VStr unknown))
           \<and> map_of d ''maker'' = Some (dict_get defaults ''maker'' (VStr unknown))
           \<and> map_of d ''publisher'' = Some (dict_get defaults ''publisher'' (VStr unknown))"
  by (simp add: parse_nfo_all_raise [OF assms] init_data_def)

section \<open>The rating\<close>

text \<open>
  Claim C5, as amended. When the tree walk (strategies 1 and 2) or the line-by-line
  strategy finds a rating text that is not empty after cleaning: if \<open>float\<close> accepts
  the text, the rating stored is the very value \<open>float\<close> gives, not rounded; if it does
  not, the rating keeps its prior value and nothing is raised.
\<close>

theorem rating_stored_unrounded:
  "(truthy_text (find_child ''rating'' rt) = Some t \<and> clean_text E t \<noteq> []
      \<longrightarrow> dict_get (extract_data_safe E rt d) ''rating'' x
            = (case py_float E (clean_text E t) of
                 Some v \<Rightarrow> VFloat v
               | None \<Rightarrow> dict_get d ''rating'' x))
   \<and> (open_read E p = Inr content \<and> extract_field E ''rating'' content \<noteq> []
      \<longrightarrow> fst (parse_line_by_line E p d w) = Returned
          \<and> dict_get (dict_after parse_line_by_line E p d) ''rating'' x
            = (case py_float E (extract_field E ''rating'' content) of
                 Some v \<Rightarrow> VFloat v
               | None \<Rightarrow> dict_get d ''rating'' x))"
proof (intro conjI impI)
  assume "truthy_text (find_child ''rating'' rt) = Some t \<and> clean_text E t \<noteq> []"
  then show "dict_get (extract_data_safe E rt d) ''rating'' x
            = (case py_float E (clean_text E t) of
                 Some v \<Rightarrow> VFloat v
               | None \<Rightarrow> dict_get d ''rating'' x)"
    by (simp add: rating_after_extract rating_step)
next
  assume h: "open_read E p = Inr content \<and> extract_field E ''rating'' content \<noteq> []"
  then show "fst (parse_line_by_line E p d w) = Returned"
    by (simp add: parse_line_by_line_def Let_def)
  from h show "dict_get (dict_after parse_line_by_line E p d) ''rating'' x
            = (case py_float E (extract_field E ''rating'' content) of
                 Some v \<Rightarrow> VFloat v
               | None \<Rightarrow> dict_get d ''rating'' x)"
    by (simp add: rating_after_lines)
qed

section \<open>The actors\<close>


section \<open>The example files, run\<close>

lemmas eval_defs = parse_nfo_def parsers_def attempt_def parse_standard_xml_def
  parse_with_recovery_def parse_line_by_line_def parse_with_minidom_def file_env_def
  extract_data_safe_def field_tags_def extract_field_safe_def truthy_text_def find_child_def
  findall_def clean_text_def category_C_def ex_category_def strip_def is_space_def dict_set_def
  dict_get_def has_meaningful_data_def py_strip_def py_gt0_def py_len_def num_gt0_def
  init_data_def builtin_defaults_def fix_xml_issues_def entity_ahead_def alt_def
  invalid_char_def fresh_def unlink_def Let_def extract_field_def tag_re_def actor_re_def
  ieq_def ascii_def unknown_def no_plot_def minidom_field_def world0_def plain_float_def

lemma eval_missing:
  "parse_nfo missing_env (Dict builtin_defaults) ''f'' world0 =
     (Inr (init_data builtin_defaults),
      \<lparr>scratch = [],
       log = [Start, Attempt 1, Failed 1 OSError, Attempt 2, Failed 2 OSError,
              Attempt 3, Failed 3 OSError, Attempt 4, Failed 4 PlainException, AllFailed]\<rparr>)"
proof -
  have "et_parse missing_env ''f'' = Inl OSError" and "open_read missing_env ''f'' = Inl OSError"
    and "minidom_parse missing_env ''f'' = Inl OSError"
    by (simp_all add: missing_env_def)
  from parse_nfo_all_raise [OF this, of builtin_defaults world0] show ?thesis
    by (simp add: world0_def)
qed

lemma eval_empty:
  "parse_nfo empty_env (Dict builtin_defaults) ''f'' world0 =
     (Inr [(''title'', VStr []), (''actors'', VList []), (''release_date'', VStr []),
           (''rating'', VFloat (Finite 0)), (''plot'', VStr []), (''genre'', VList []),
           (''studio'', VStr []), (''director'', VStr []), (''maker'', VStr unknown),
           (''publisher'', VStr unknown), (''series'', VStr []), (''runtime'', VStr [])],
      \<lparr>scratch = [],
       log = [Start, Attempt 1, Failed 1 ParseError, Attempt 2, Failed 2 ParseError,
              Attempt 3, Accepted 3]\<rparr>)"
  by (simp add: eval_defs empty_env_def)

lemma eval_maker:
  "parse_nfo maker_env (Dict builtin_defaults) ''f'' world0 =
     (Inr [(''title'', VStr []), (''actors'', VList []), (''release_date'', VStr []),
           (''rating'', VFloat (Finite 0)), (''plot'', VStr []), (''genre'', VList []),
           (''studio'', VStr []), (''director'', VStr []), (''maker'', VStr (ascii ''X'')),
           (''publisher'', VStr unknown), (''series'', VStr []), (''runtime'', VStr [])],
      \<lparr>scratch = [],
       log = [Start, Attempt 1, Attempt 2, RecoveryOk, Attempt 3, Accepted 3]\<rparr>)"
  by (simp add: eval_defs maker_env_def)

lemma eval_placeholder:
  "parse_nfo placeholder_env (Dict builtin_defaults) ''f'' world0 =
     (Inr [(''title'', VStr []), (''actors'', VList []), (''release_date'', VStr []),
           (''rating'', VFloat (Finite 0)), (''plot'', VStr no_plot), (''genre'', VList []),
           (''studio'', VStr unknown), (''director'', VStr unknown),
           (''maker'', VStr (ascii ''X'')), (''publisher'', VStr unknown),
           (''series'', VStr []), (''runtime'', VStr [])],
      \<lparr>scratch = [],
       log = [Start, Attempt 1, Attempt 2, RecoveryOk, Attempt 3, Attempt 4, AllFailed]\<rparr>)"
  by (simp add: eval_defs placeholder_env_def)

lemma eval_tab_title:
  "parse_nfo tab_title_env (Dict builtin_defaults) ''f'' world0 =
     (Inr [(''title'', VStr [9]), (''actors'', VList []), (''release_date'', VStr []),
           (''rating'', VFloat (Finite 0)), (''plot'', VStr no_plot), (''genre'', VList []),
           (''studio'', VStr unknown), (''director'', VStr unknown),
           (''maker'', VStr unknown), (''publisher'', VStr unknown),
           (''series'', VStr []), (''runtime'', VStr [])],
      \<lparr>scratch = [],
       log = [Start, Attempt 1, Attempt 2, RecoveryOk, Attempt 3, Attempt 4, AllFailed]\<rparr>)"
  by (simp add: eval_defs tab_title_env_def)

lemma eval_rating:
  "parse_nfo rating_env (Dict builtin_defaults) ''f'' world0 =
     (Inr [(''title'', VStr []), (''actors'', VList []), (''release_date'', VStr []),
           (''rating'', VFloat (Finite (33 / 4))), (''plot'', VStr no_plot),
           (''genre'', VList []), (''studio'', VStr unknown), (''director'', VStr unknown),
           (''maker'', VStr unknown), (''publisher'', VStr unknown), (''series'', VStr [])],
      \<lparr>scratch = [], log = [Start, Attempt 1, Accepted 1]\<rparr>)"
  by (simp add: eval_defs rating_env_def)

lemma eval_disk_full:
  "parse_nfo disk_full_env (Dict builtin_defaults) ''f'' world0 =
     (Inr [(''title'', VStr []), (''actors'', VList []), (''release_date'', VStr []),
           (''rating'', VFloat (Finite 0)), (''plot'', VStr []), (''genre'', VList []),
           (''studio'', VStr []), (''director'', VStr []), (''maker'', VStr unknown),
           (''publisher'', VStr unknown), (''series'', VStr []), (''runtime'', VStr [])],
      \<lparr>scratch = [1],
       log = [Start, Attempt 1, Attempt 2, Failed 2 OSError, Attempt 3, Accepted 3]\<rparr>)"
  by (simp add: eval_defs disk_full_env_def)

lemma eval_amp:
  "parse_nfo amp_env (Dict builtin_defaults) ''f'' world0 =
     (Inr [(''title'', VStr (ascii ''Tom & Jerry'')), (''actors'', VList []),
           (''release_date'', VStr []), (''rating'', VFloat (Finite 0)),
           (''plot'', VStr no_plot), (''genre'', VList []), (''studio'', VStr unknown),
           (''director'', VStr unknown), (''maker'', VStr unknown),
           (''publisher'', VStr unknown), (''series'', VStr [])],
      \<lparr>scratch = [],
       log = [Start, Attempt 1, Failed 1 ParseError, Attempt 2, RecoveryOk, Accepted 2]\<rparr>)"
  by (simp add: eval_defs amp_env_def)

lemma eval_zwsp_title:
  "parse_nfo zwsp_title_env (Dict builtin_defaults) ''f'' world0 =
     (Inr [(''title'', VStr [8203]), (''actors'', VList []), (''release_date'', VStr []),
           (''rating'', VFloat (Finite 0)), (''plot'', VStr no_plot), (''genre'', VList []),
           (''studio'', VStr unknown), (''director'', VStr unknown),
           (''maker'', VStr unknown), (''publisher'', VStr unknown),
           (''series'', VStr []), (''runtime'', VStr [])],
      \<lparr>scratch = [],
       log = [Start, Attempt 1, Attempt 2, RecoveryOk, Attempt 3, Attempt 4, Accepted 4]\<rparr>)"
  by (simp add: eval_defs zwsp_title_env_def)




lemma chain_of_run:
  assumes "parse_nfo E (Dict defaults) ''f'' world0 = (Inr r, \<lparr>scratch = fs, log = evs\<rparr>)"
  shows "chain E defaults ''f'' parsers (init_data defaults) = (attempted evs, accepted evs, r)"
  using parse_nfo_chain [of E defaults "''f''" world0]
  unfolding trace_def result_of_def assms by (simp add: world0_def)

section \<open>The claims on the example files\<close>



text \<open>The order of the strategies (C2) on files where strategy 1, 2, 3 and 4 is the
  first accepted, on the placeholder file, where none is, and on the missing file, where
  all four raise.\<close>

theorem strategy_chain_witness:
  "attempted (trace rating_env builtin_defaults ''f'' world0) = [1]
   \<and> accepted (trace rating_env builtin_defaults ''f'' world0) = [1]
   \<and> attempted (trace amp_env builtin_defaults ''f'' world0) = [1, 2]
   \<and> accepted (trace amp_env builtin_defaults ''f'' world0) = [2]
   \<and> dict_get (result_of (parse_nfo amp_env (Dict builtin_defaults) ''f'' world0)) ''title'' VNone
       = VStr (ascii ''Tom & Jerry'')
   \<and> attempted (trace maker_env builtin_defaults ''f'' world0) = [1, 2, 3]
   \<and> accepted (trace maker_env builtin_defaults ''f'' world0) = [3]
   \<and> attempted (trace zwsp_title_env builtin_defaults ''f'' world0) = [1, 2, 3, 4]
   \<and> accepted (trace zwsp_title_env builtin_defaults ''f'' world0) = [4]
   \<and> attempted (trace placeholder_env builtin_defaults ''f'' world0) = [1, 2, 3, 4]
   \<and> accepted (trace placeholder_env builtin_defaults ''f'' world0) = []
   \<and> attempted (trace missing_env builtin_defaults ''f'' world0) = [1, 2, 3, 4]
   \<and> accepted (trace missing_env builtin_defaults ''f'' world0) = []
   \<and> result_of (parse_nfo missing_env (Dict builtin_defaults) ''f'' world0)
       = init_data builtin_defaults"
proof -
  let ?D = builtin_defaults
  let ?d0 = "init_data builtin_defaults"
  have rating: "accepts rating_env ?D ''f'' parse_standard_xml ?d0"
    using chain_of_run [OF eval_rating]
    by (simp add: parsers_def split: if_splits prod.splits)
  have amp: "accepts amp_env ?D ''f'' parse_standard_xml ?d0 = False
     \<and> accepts amp_env ?D ''f'' parse_with_recovery
          (dict_after parse_standard_xml amp_env ''f'' ?d0)"
    using chain_of_run [OF eval_amp]
    by (simp add: parsers_def split: if_splits prod.splits)
  have maker: "accepts maker_env ?D ''f'' parse_standard_xml ?d0 = False
     \<and> accepts maker_env ?D ''f'' parse_with_recovery
          (dict_after parse_standard_xml maker_env ''f'' ?d0) = False
     \<and> accepts maker_env ?D ''f'' parse_line_by_line
          (dict_after parse_with_recovery maker_env ''f''
            (dict_after parse_standard_xml maker_env ''f'' ?d0))"
    using chain_of_run [OF eval_maker]
    by (simp add: parsers_def split: if_splits prod.splits)
  have zwsp: "accepts zwsp_title_env ?D ''f'' parse_standard_xml ?d0 = False
     \<and> accepts zwsp_title_env ?D ''f'' parse_with_recovery
          (dict_after parse_standard_xml zwsp_title_env ''f'' ?d0) = False
     \<and> accepts zwsp_title_env ?D ''f'' parse_line_by_line
          (dict_after parse_with_recovery zwsp_title_env ''f''
            (dict_after parse_standard_xml zwsp_title_env ''f'' ?d0)) = False
     \<and> accepts zwsp_title_env ?D ''f'' parse_with_minidom
          (dict_after parse_line_by_line zwsp_title_env ''f''
            (dict_after parse_with_recovery zwsp_title_env ''f''
              (dict_after parse_standard_xml zwsp_title_env ''f'' ?d0)))"
    using chain_of_run [OF eval_zwsp_title]
    by (simp add: parsers_def split: if_splits prod.splits)
  have ph: "accepts placeholder_env ?D ''f'' parse_standard_xml ?d0 = False
     \<and> accepts placeholder_env ?D ''f'' parse_with_recovery
          (dict_after parse_standard_xml placeholder_env ''f'' ?d0) = False
     \<and> accepts placeholder_env ?D ''f'' parse_line_by_line
          (dict_after parse_with_recovery placeholder_env ''f''
            (dict_after parse_standard_xml placeholder_env ''f'' ?d0)) = False
     \<and> accepts placeholder_env ?D ''f'' parse_with_minidom
          (dict_after parse_line_by_line placeholder_env ''f''
            (dict_after parse_with_recovery placeholder_env ''f''
              (dict_after parse_standard_xml placeholder_env ''f'' ?d0))) = False"
    using chain_of_run [OF eval_placeholder]
    by (simp add: parsers_def split: if_splits prod.splits)
  have miss: "et_parse missing_env ''f'' = Inl OSError \<and> open_read missing_env ''f'' = Inl OSError
     \<and> minidom_parse missing_env ''f'' = Inl OSError"
    by (simp add: missing_env_def)
  have t: "dict_get (result_of (parse_nfo amp_env (Dict builtin_defaults) ''f'' world0)) ''title'' VNone
       = VStr (ascii ''Tom & Jerry'')"
    unfolding result_of_def eval_amp by (simp add: dict_get_def)
  from strategy_chain [where E = rating_env and defaults = ?D and p = "''f''" and w = world0] rating
  have 1: "attempted (trace rating_env ?D ''f'' world0) = [1]
     \<and> accepted (trace rating_env ?D ''f'' world0) = [1]"
    by (simp add: Let_def)
  from strategy_chain [where E = amp_env and defaults = ?D and p = "''f''" and w = world0] amp
  have 2: "attempted (trace amp_env ?D ''f'' world0) = [1, 2]
     \<and> accepted (trace amp_env ?D ''f'' world0) = [2]"
    by (simp add: Let_def)
  from strategy_chain [where E = maker_env and defaults = ?D and p = "''f''" and w = world0] maker
  have 3: "attempted (trace maker_env ?D ''f'' world0) = [1, 2, 3]
     \<and> accepted (trace maker_env ?D ''f'' world0) = [3]"
    by (simp add: Let_def)
  from strategy_chain [where E = zwsp_title_env and defaults = ?D and p = "''f''" and w = world0] zwsp
  have 4: "attempted (trace zwsp_title_env ?D ''f'' world0) = [1, 2, 3, 4]
     \<and> accepted (trace zwsp_title_env ?D ''f'' world0) = [4]"
    by (simp add: Let_def)
  from strategy_chain [where E = placeholder_env and defaults = ?D and p = "''f''" and w = world0] ph
  have 5: "attempted (trace placeholder_env ?D ''f'' world0) = [1, 2, 3, 4]
     \<and> accepted (trace placeholder_env ?D ''f'' world0) = []"
    by (simp add: Let_def)
  from strategy_chain [where E = missing_env and defaults = ?D and p = "''f''" and w = world0] miss
  have 6: "attempted (trace missing_env ?D ''f'' world0) = [1, 2, 3, 4]
     \<and> accepted (trace missing_env ?D ''f'' world0) = []
     \<and> result_of (parse_nfo missing_env (Dict ?D) ''f'' world0) = init_data ?D"
    by blast
  from 1 2 3 4 5 6 t show ?thesis by blast
qed

text \<open>The claim as first stated fails on the placeholder file: strategy 1 parses it, yet
  all four strategies are invoked, none is accepted, and the record returned is not the
  default-initialised one (it has the maker \<open>X\<close> and a runtime entry).\<close>

theorem strategy_chain_counterexample:
  "fst (parse_standard_xml placeholder_env ''f'' (init_data builtin_defaults) world0) = Returned
   \<and> attempted (trace placeholder_env builtin_defaults ''f'' world0) = [1, 2, 3, 4]
   \<and> accepted (trace placeholder_env builtin_defaults ''f'' world0) = []
   \<and> result_of (parse_nfo placeholder_env (Dict builtin_defaults) ''f'' world0)
       \<noteq> init_data builtin_defaults"
proof -
  have "fst (parse_standard_xml placeholder_env ''f'' (init_data builtin_defaults) world0) = Returned"
    by (simp add: parse_standard_xml_def placeholder_env_def file_env_def)
  then show ?thesis
    unfolding trace_def result_of_def eval_placeholder
    by (simp add: world0_def init_data_def builtin_defaults_def dict_get_def ascii_def
          unknown_def)
qed

text \<open>The claim C7 as first stated fails on the maker file: strategy 3 is the accepted
  one and does not write the maker, yet the record returned has the maker \<open>X\<close> that
  strategy 1, which was not accepted, wrote over the default.\<close>

theorem record_is_all_attempts_counterexample:
  "accepted (trace maker_env builtin_defaults ''f'' world0) = [3]
   \<and> dict_get (result_of (parse_nfo maker_env (Dict builtin_defaults) ''f'' world0)) ''maker'' VNone
       = VStr (ascii ''X'')
   \<and> dict_get (init_data builtin_defaults) ''maker'' VNone = VStr unknown
   \<and> dict_get (dict_after parse_line_by_line maker_env ''f'' (init_data builtin_defaults))
        ''maker'' VNone = VStr unknown
   \<and> dict_get (dict_after parse_standard_xml maker_env ''f'' (init_data builtin_defaults))
        ''maker'' VNone = VStr (ascii ''X'')
   \<and> VStr unknown \<noteq> VStr (ascii ''X'')"
proof -
  have 1: "accepted (trace maker_env builtin_defaults ''f'' world0) = [3]"
    unfolding trace_def eval_maker by (simp add: world0_def)
  have 2: "dict_get (result_of (parse_nfo maker_env (Dict builtin_defaults) ''f'' world0)) ''maker'' VNone
       = VStr (ascii ''X'')"
    unfolding result_of_def eval_maker by (simp add: dict_get_def)
  have 3: "dict_get (init_data builtin_defaults) ''maker'' VNone = VStr unknown"
    by (simp add: init_data_def builtin_defaults_def dict_get_def)
  have 4: "dict_get (dict_after parse_line_by_line maker_env ''f'' (init_data builtin_defaults))
        ''maker'' VNone = VStr unknown"
    by (simp add: dict_after_def parse_line_by_line_def maker_env_def file_env_def Let_def
          dict_get_set 3 split: option.splits)
  have 5: "dict_get (dict_after parse_standard_xml maker_env ''f'' (init_data builtin_defaults))
        ''maker'' VNone = VStr (ascii ''X'')"
    by (simp add: dict_after_def eval_defs maker_env_def)
  have 6: "VStr unknown \<noteq> VStr (ascii ''X'')"
    by (simp add: unknown_def ascii_def)
  from 1 2 3 4 5 6 show ?thesis by blast
qed

text \<open>The defaults of an unreadable file (C3) on the missing file.\<close>

theorem unreadable_gives_defaults_witness:
  "\<exists>d. fst (parse_nfo missing_env (Dict builtin_defaults) ''f'' world0) = Inr d
       \<and> map_of d ''title'' = Some (VStr [])
       \<and> map_of d ''runtime'' = None
       \<and> map_of d ''rating'' = Some (VFloat (Finite 0))
       \<and> map_of d ''plot'' = Some (VStr no_plot)
       \<and> map_of d ''studio'' = Some (VStr unknown)
       \<and> map_of d ''maker'' = Some (VStr unknown)"
proof -
  have "et_parse missing_env ''f'' = Inl OSError" and "open_read missing_env ''f'' = Inl OSError"
    and "minidom_parse missing_env ''f'' = Inl OSError"
    by (simp_all add: missing_env_def)
  from unreadable_gives_defaults [OF this, of builtin_defaults world0]
  show ?thesis by (auto simp: builtin_defaults_def dict_get_def)
qed

text \<open>The claim C3 as first stated fails twice: the record of a missing file has no
  runtime entry at all, and the record of an empty file has an empty studio where the
  default is the placeholder.\<close>

theorem default_completeness_counterexample:
  "map_of (result_of (parse_nfo missing_env (Dict builtin_defaults) ''f'' world0)) ''runtime'' = None
   \<and> dict_get (result_of (parse_nfo empty_env (Dict builtin_defaults) ''f'' world0)) ''studio'' VNone
       = VStr []
   \<and> dict_get builtin_defaults ''studio'' VNone = VStr unknown
   \<and> unknown \<noteq> []"
  unfolding result_of_def eval_missing eval_empty
  by (simp add: init_data_def dict_get_def builtin_defaults_def unknown_def)

text \<open>The rating (C5) on the rating file, by the tree walk and by the line-by-line
  strategy.\<close>

theorem rating_stored_unrounded_witness:
  "dict_get (extract_data_safe rating_env
        (Element ''movie'' None [Element ''rating'' (Some (ascii ''8.25'')) []])
        (init_data builtin_defaults)) ''rating'' VNone = VFloat (Finite (33 / 4))
   \<and> fst (parse_line_by_line rating_env ''f'' (init_data builtin_defaults) world0) = Returned
   \<and> dict_get (dict_after parse_line_by_line rating_env ''f'' (init_data builtin_defaults))
        ''rating'' VNone = VFloat (Finite (33 / 4))"
proof -
  let ?rt = "Element ''movie'' None [Element ''rating'' (Some (ascii ''8.25'')) []]"
  let ?content = "ascii ''<movie><rating>8.25</rating></movie>''"
  have t: "truthy_text (find_child ''rating'' ?rt) = Some (ascii ''8.25'')"
    by (simp add: truthy_text_def find_child_def ascii_def)
  have c: "clean_text rating_env (ascii ''8.25'') = ascii ''8.25''"
    by (simp add: eval_defs rating_env_def)
  have f: "py_float rating_env (ascii ''8.25'') = Some (Finite (33 / 4))"
    by (simp add: eval_defs rating_env_def)
  have r: "open_read rating_env ''f'' = Inr ?content"
    by (simp add: rating_env_def file_env_def)
  have x: "extract_field rating_env ''rating'' ?content = ascii ''8.25''"
    by (simp add: eval_defs rating_env_def)
  have ne: "ascii ''8.25'' \<noteq> []" by (simp add: ascii_def)
  from rating_stored_unrounded [of ?rt "ascii ''8.25''" rating_env "init_data builtin_defaults"
      VNone "''f''" ?content world0] t c f r x ne
  show ?thesis by simp
qed

text \<open>The claim C5 as first stated fails on the rating file: the text \<open>8.25\<close> is stored
  as 8.25, which is neither 8.2 nor 8.3.\<close>

theorem rating_rounding_counterexample:
  "dict_get (result_of (parse_nfo rating_env (Dict builtin_defaults) ''f'' world0)) ''rating'' VNone
     = VFloat (Finite (33 / 4))
   \<and> (33 / 4 :: rat) \<noteq> 41 / 5 \<and> (33 / 4 :: rat) \<noteq> 83 / 10"
  unfolding result_of_def eval_rating by (simp add: dict_get_def)



section \<open>Where the code departs from the claims\<close>

text \<open>
  Claim C4 says that the heuristic compares studio, director and plot with the values
  the configuration supplies. The code compares studio and director with the literal
  placeholder: under a configuration whose studio default is \<open>Unknown\<close>, the initial
  record, in which every field is at its configured default, passes the heuristic.
\<close>

theorem heuristic_hardcodes_unknown:
  "has_meaningful_data english_defaults (init_data english_defaults) = Inr True
   \<and> dict_get (init_data english_defaults) ''studio'' VNone
       = dict_get english_defaults ''studio'' VNone"
  by (simp add: eval_defs english_defaults_def)

text \<open>
  Claim C6 says that a strategy overwrites only the fields it found a value for. The
  line-by-line strategy assigns its seven text fields whether the tag was found or not:
  for an empty file it is the accepted strategy, and the studio of the returned record
  is the empty text, not the default it had.
\<close>

theorem line_by_line_overwrites_defaults:
  "dict_get (init_data builtin_defaults) ''studio'' VNone = VStr unknown
   \<and> accepted (trace empty_env builtin_defaults ''f'' world0) = [3]
   \<and> dict_get (result_of (parse_nfo empty_env (Dict builtin_defaults) ''f'' world0)) ''studio'' VNone
       = VStr []"
  unfolding trace_def result_of_def eval_empty
  by (simp add: world0_def init_data_def dict_get_def builtin_defaults_def)

text \<open>
  Claim C8 says that every text stored has been cleaned, by the minidom strategy too.
  The minidom strategy stores the node value as it is: for the file whose title is one
  tab, the returned title is that tab, a control character which \<open>_clean_text\<close> removes.
\<close>

theorem minidom_stores_uncleaned_text:
  "dict_get (result_of (parse_nfo tab_title_env (Dict builtin_defaults) ''f'' world0)) ''title'' VNone
     = VStr [9]
   \<and> category_C tab_title_env 9
   \<and> clean_text tab_title_env [9] = []"
  unfolding result_of_def eval_tab_title
  by (simp add: dict_get_def category_C_def tab_title_env_def file_env_def ex_category_def
        clean_text_def strip_def is_space_def)

text \<open>
  Claim C9 says that the scratch file is deleted on every exit path of the recovery
  strategy. The \<open>finally\<close> that deletes it starts after the file has been written: when
  the write fails, the strategy raises and the file it created is still there, also
  after \<open>parse_nfo\<close> has returned.
\<close>

theorem scratch_file_left_behind:
  "scratch world0 = []
   \<and> parse_with_recovery disk_full_env ''f'' (init_data builtin_defaults) world0
       = (Raised OSError, init_data builtin_defaults, \<lparr>scratch = [1], log = []\<rparr>)
   \<and> scratch (snd (parse_nfo disk_full_env (Dict builtin_defaults) ''f'' world0)) = [1]"
  unfolding eval_disk_full
  by (simp add: world0_def parse_with_recovery_def disk_full_env_def file_env_def
        Let_def fresh_def)

end
